theory Spec2Isabelle
  imports Complex_Main
begin

section \<open>The case report table\<close>

text \<open>
  The script \<^verbatim>\<open>main.py\<close> works on one pandas DataFrame. A DataFrame is modelled as the
  ordered list of its column names and the list of its rows; a row carries its index label
  (the labels survive \<^verbatim>\<open>dropna\<close> and boolean indexing) and one cell for every column.

  A cell is a missing value (\<^verbatim>\<open>NaN\<close>, \<^verbatim>\<open>None\<close>, \<^verbatim>\<open>NaT\<close>: what \<^verbatim>\<open>isna\<close> answers True for),
  a string, a number or a parsed timestamp (nanoseconds since the epoch). A number is a
  finite value or one of the two float infinities (\<^verbatim>\<open>read_csv\<close> reads the text \<^verbatim>\<open>inf\<close>
  as a float infinity, and \<^verbatim>\<open>dropna\<close> keeps it); the float \<^verbatim>\<open>NaN\<close> is the missing value.
  Finite values are exact rationals: the integer counts of the data set are represented
  exactly, rounding inside the float range is idealised as exact arithmetic, and a result
  beyond the float range becomes an infinity.
\<close>

datatype cell = NA | Str string | Num rat | PosInf | NegInf | Time int

type_synonym row = "nat \<times> cell list"

record table =
  columns :: "string list"
  rows :: "row list"

text \<open>The shape invariant of a DataFrame read by \<^verbatim>\<open>read_csv\<close>: every row has one cell for
  every column, and the column names are distinct (\<^verbatim>\<open>read_csv\<close> renames duplicates).\<close>

definition wf_table :: "table \<Rightarrow> bool" where
  "wf_table df \<longleftrightarrow>
     distinct (columns df) \<and> (\<forall>r \<in> set (rows df). length (snd r) = length (columns df))"

text \<open>\<^verbatim>\<open>pd.DataFrame()\<close>: no columns and no rows.\<close>

definition DataFrame_empty :: table where
  "DataFrame_empty = \<lparr>columns = [], rows = []\<rparr>"

text \<open>\<^verbatim>\<open>df.empty\<close>: True when either axis has length 0.\<close>

definition df_empty :: "table \<Rightarrow> bool" where
  "df_empty df \<longleftrightarrow> columns df = [] \<or> rows df = []"

section \<open>Exceptions, log records and the outside world\<close>

datatype exc_class =
  FileNotFoundError | ParserError | KeyError | ValueError | TypeError | ZeroDivisionError
  | OtherException string

text \<open>An exception (a subclass of \<^verbatim>\<open>Exception\<close>): its class and the text \<^verbatim>\<open>str(e)\<close>.\<close>

datatype py_error = Exc exc_class string

datatype level = DEBUG | INFO | WARNING | ERROR

datatype stage = Load | Clean | Persist | Analyze

datatype event = Printed_summary table | Histogram "cell list" | Heatmap table

text \<open>
  What a run leaves behind: the log records in order, the CSV files written (path, header
  and records, without the index: \<^verbatim>\<open>index=False\<close>), what was printed or plotted, and the
  stages entered, in order. The last field is a trace kept for the statements about control
  flow; the script does not read it.
\<close>

record world =
  log_records :: "(level \<times> string) list"
  written :: "(string \<times> string list \<times> cell list list) list"
  display :: "event list"
  calls :: "stage list"

definition initial_world :: world where
  "initial_world = \<lparr>log_records = [], written = [], display = [], calls = []\<rparr>"

text \<open>
  The collaborators outside the script: \<^verbatim>\<open>pd.read_csv\<close> on a path (the table, or the
  exception it raises), the pandas parser that turns one non-null value into a timestamp (or
  raises), the exception \<^verbatim>\<open>to_csv\<close> raises on a path (if any), and the directory of the
  script, \<^verbatim>\<open>os.path.dirname(__file__)\<close>.
\<close>

record env =
  read_csv :: "string \<Rightarrow> py_error + table"
  parse_datetime :: "cell \<Rightarrow> py_error + int"
  to_csv_error :: "string \<Rightarrow> py_error option"
  file_dir :: string

text \<open>Modelled from the spec: the module \<^verbatim>\<open>logger.py\<close> (\<^verbatim>\<open>setup_logger\<close>) is not among the
  sources. The spec describes a line-based severity logger with the channels debug, info,
  warning and error, each a message sink, set up with the minimum severity \<^verbatim>\<open>DEBUG\<close>; so
  every record is kept, in the order of the calls.\<close>

definition logger_log :: "level \<Rightarrow> string \<Rightarrow> world \<Rightarrow> world" where
  "logger_log lvl msg w = w\<lparr>log_records := log_records w @ [(lvl, msg)]\<rparr>"

definition logger_info :: "string \<Rightarrow> world \<Rightarrow> world" where
  "logger_info = logger_log INFO"

definition logger_warning :: "string \<Rightarrow> world \<Rightarrow> world" where
  "logger_warning = logger_log WARNING"

definition logger_error :: "string \<Rightarrow> world \<Rightarrow> world" where
  "logger_error = logger_log ERROR"

definition errors_logged :: "world \<Rightarrow> string list" where
  "errors_logged w = map snd (filter (\<lambda>r. fst r = ERROR) (log_records w))"

definition enter :: "stage \<Rightarrow> world \<Rightarrow> world" where
  "enter s w = w\<lparr>calls := calls w @ [s]\<rparr>"

section \<open>The pandas operations the script uses\<close>

definition sq :: string where
  "sq = [CHR 0x27]"

text \<open>\<^verbatim>\<open>repr\<close> of a string and of a list of strings, as an f-string renders
  \<^verbatim>\<open>df.columns.tolist()\<close> (for names without quotes or backslashes).\<close>

definition repr_str :: "string \<Rightarrow> string" where
  "repr_str s = sq @ s @ sq"

fun join_comma :: "string list \<Rightarrow> string" where
  "join_comma [] = []"
| "join_comma [s] = s"
| "join_comma (s # t # ss) = s @ '', '' @ join_comma (t # ss)"

definition repr_list :: "string list \<Rightarrow> string" where
  "repr_list ss = ''['' @ join_comma (map repr_str ss) @ '']''"

fun index_of :: "string list \<Rightarrow> string \<Rightarrow> nat" where
  "index_of [] n = 0"
| "index_of (c # cs) n = (if c = n then 0 else Suc (index_of cs n))"

text \<open>The cell of a row in the named column.\<close>

definition cell_of :: "table \<Rightarrow> string \<Rightarrow> row \<Rightarrow> cell" where
  "cell_of df name r = snd r ! index_of (columns df) name"

text \<open>\<^verbatim>\<open>df.dropna()\<close>: keeps the rows without any missing value.\<close>

definition dropna :: "table \<Rightarrow> table" where
  "dropna df = df\<lparr>rows := filter (\<lambda>r. NA \<notin> set (snd r)) (rows df)\<rparr>"

text \<open>\<^verbatim>\<open>df[name]\<close>: the column, or \<^verbatim>\<open>KeyError\<close> when there is no such column.\<close>

definition getitem :: "table \<Rightarrow> string \<Rightarrow> py_error + cell list" where
  "getitem df name =
     (if name \<in> set (columns df) then Inr (map (cell_of df name) (rows df))
      else Inl (Exc KeyError (repr_str name)))"

text \<open>\<^verbatim>\<open>df[name] = values\<close>, the values in row order: replaces the column, or appends
  a new one.\<close>

definition setitem :: "table \<Rightarrow> string \<Rightarrow> cell list \<Rightarrow> table" where
  "setitem df name vals =
     (if name \<in> set (columns df)
      then df\<lparr>rows := map (\<lambda>(r, v). (fst r, (snd r)[index_of (columns df) name := v]))
                          (zip (rows df) vals)\<rparr>
      else \<lparr>columns = columns df @ [name],
            rows = map (\<lambda>(r, v). (fst r, snd r @ [v])) (zip (rows df) vals)\<rparr>)"

text \<open>The strings pandas reads as \<^verbatim>\<open>NaT\<close> when parsing dates (besides the empty string).\<close>

definition nat_strings :: "string list" where
  "nat_strings = [''NaT'', ''nat'', ''NAT'', ''nan'', ''NaN'', ''NAN'']"

text \<open>The values that are not missing for \<^verbatim>\<open>dropna\<close> but that \<^verbatim>\<open>pd.to_datetime\<close> turns
  into \<^verbatim>\<open>NaT\<close> without raising: the empty string, the strings above, and the number
  \<open>- 2\<^sup>6\<^sup>3\<close> (the integer that stands for \<^verbatim>\<open>NaT\<close> inside pandas).\<close>

definition null_marker :: "cell \<Rightarrow> bool" where
  "null_marker c =
     (case c of
        Str s \<Rightarrow> s = [] \<or> s \<in> set nat_strings
      | Num n \<Rightarrow> n = - (2 ^ 63)
      | _ \<Rightarrow> False)"

text \<open>\<^verbatim>\<open>pd.to_datetime\<close> on one value (default \<^verbatim>\<open>errors='raise'\<close>): a missing value
  becomes \<^verbatim>\<open>NaT\<close>, and so does a null marker, without an exception; a timestamp stays;
  anything else goes through the parser, whose exception propagates.\<close>

definition to_datetime_value :: "(cell \<Rightarrow> py_error + int) \<Rightarrow> cell \<Rightarrow> py_error + cell" where
  "to_datetime_value parse c =
     (case c of
        NA \<Rightarrow> Inr NA
      | Time t \<Rightarrow> Inr (Time t)
      | _ \<Rightarrow>
          if null_marker c then Inr NA
          else (case parse c of Inl e \<Rightarrow> Inl e | Inr t \<Rightarrow> Inr (Time t)))"

text \<open>\<^verbatim>\<open>pd.to_datetime\<close> on a column: value by value, in row order; the first exception
  propagates and no column is produced.\<close>

fun to_datetime :: "(cell \<Rightarrow> py_error + int) \<Rightarrow> cell list \<Rightarrow> py_error + cell list" where
  "to_datetime parse [] = Inr []"
| "to_datetime parse (c # cs) =
     (case to_datetime_value parse c of
        Inl e \<Rightarrow> Inl e
      | Inr v \<Rightarrow> (case to_datetime parse cs of Inl e \<Rightarrow> Inl e | Inr vs \<Rightarrow> Inr (v # vs)))"

text \<open>\<^verbatim>\<open>df[df[name] == s]\<close>: the rows whose cell in the column is the string.\<close>

definition filter_eq :: "table \<Rightarrow> string \<Rightarrow> string \<Rightarrow> table" where
  "filter_eq df name s = df\<lparr>rows := filter (\<lambda>r. cell_of df name r = Str s) (rows df)\<rparr>"

text \<open>\<^verbatim>\<open>df.drop(columns=names, errors='ignore')\<close>: removes the named columns that exist.\<close>

definition drop_cells :: "string list \<Rightarrow> string list \<Rightarrow> cell list \<Rightarrow> cell list" where
  "drop_cells names cols cs = map snd (filter (\<lambda>p. fst p \<notin> set names) (zip cols cs))"

definition drop_columns :: "string list \<Rightarrow> table \<Rightarrow> table" where
  "drop_columns names df =
     \<lparr>columns = filter (\<lambda>c. c \<notin> set names) (columns df),
      rows = map (\<lambda>r. (fst r, drop_cells names (columns df) (snd r))) (rows df)\<rparr>"

section \<open>The cleaner\<close>

text \<open>
  \<^verbatim>\<open>clean_data(df)\<close>. The first two statements work on the caller's object
  (\<^verbatim>\<open>dropna(inplace=True)\<close>, item assignment); the filter rebinds the local name, so the
  column drop works on a new object. The function returns the world, the caller's table as
  the call leaves it, and the returned table or the exception raised.
\<close>

definition clean_data :: "env \<Rightarrow> table \<Rightarrow> world \<Rightarrow> world \<times> table \<times> (py_error + table)" where
  "clean_data env df w =
     (let df1 = dropna df in
      case getitem df1 ''Last_Update'' of
        Inl e \<Rightarrow> (w, df1, Inl e)
      | Inr col \<Rightarrow>
          (case to_datetime (parse_datetime env) col of
             Inl e \<Rightarrow> (w, df1, Inl e)
           | Inr ts \<Rightarrow>
               let df2 = setitem df1 ''Last_Update'' ts;
                   w1 = logger_info (''Columns in the dataset: '' @ repr_list (columns df2)) w
               in if ''Country_Region'' \<notin> set (columns df2)
                  then (logger_error (sq @ ''Country_Region'' @ sq @ '' column not found.'') w1,
                        df2, Inr DataFrame_empty)
                  else (w1, df2,
                        Inr (drop_columns [''Long_'', ''Lat'']
                               (filter_eq df2 ''Country_Region'' ''US'')))))"

section \<open>The loader and the persister\<close>

text \<open>\<^verbatim>\<open>load_data(file_path)\<close>: the three \<^verbatim>\<open>except\<close> clauses in their order; the result
  is the table or \<^verbatim>\<open>None\<close>.\<close>

definition load_data :: "env \<Rightarrow> string \<Rightarrow> world \<Rightarrow> world \<times> (py_error + table option)" where
  "load_data env file_path w =
     (case read_csv env file_path of
        Inr data \<Rightarrow> (logger_info ''Data successfully loaded'' w, Inr (Some data))
      | Inl (Exc cls msg) \<Rightarrow>
          if cls = FileNotFoundError
          then (logger_error (''File not found at path: '' @ file_path
                              @ ''. Please check the file path.'') w, Inr None)
          else if cls = ParserError
          then (logger_error ''Error reading the CSV file. It may be malformed.'' w, Inr None)
          else (logger_error (''An unexpected error occurred: '' @ msg) w, Inr None))"

text \<open>\<^verbatim>\<open>df.to_csv(file_path, index=False)\<close>: writes header and records, or raises.\<close>

definition to_csv :: "env \<Rightarrow> table \<Rightarrow> string \<Rightarrow> world \<Rightarrow> world \<times> (py_error + unit)" where
  "to_csv env df file_path w =
     (case to_csv_error env file_path of
        None \<Rightarrow> (w\<lparr>written := written w @ [(file_path, columns df, map snd (rows df))]\<rparr>, Inr ())
      | Some e \<Rightarrow> (w, Inl e))"

definition save_cleaned_data ::
  "env \<Rightarrow> table \<Rightarrow> string \<Rightarrow> world \<Rightarrow> world \<times> (py_error + unit)" where
  "save_cleaned_data env df file_path w =
     (case to_csv env df file_path w of
        (w1, Inr u) \<Rightarrow> (logger_info (''Cleaned data saved to '' @ file_path) w1, Inr ())
      | (w1, Inl (Exc cls msg)) \<Rightarrow>
          (logger_error (''Failed to save cleaned data: '' @ msg) w1, Inr ()))"

section \<open>The analyzer\<close>

text \<open>
  The comparison \<^verbatim>\<open>x > 0\<close> and the operators \<^verbatim>\<open>/\<close> and \<^verbatim>\<open>*\<close> on cells, as float
  arithmetic does them: a missing number is \<^verbatim>\<open>NaN\<close> (every comparison with it is False,
  arithmetic gives \<^verbatim>\<open>NaN\<close>), an infinity divided by an infinity is \<^verbatim>\<open>NaN\<close>, a finite
  result at or beyond \<open>2\<^sup>1\<^sup>0\<^sup>2\<^sup>4 - 2\<^sup>9\<^sup>7\<^sup>0\<close> in magnitude overflows to an infinity; strings and
  timestamps raise \<^verbatim>\<open>TypeError\<close>. The lambda below divides only by a value greater than
  zero, so the zero divisor of \<open>truediv\<close> is never reached from it.
\<close>

definition type_error :: py_error where
  "type_error = Exc TypeError ''unsupported operand type(s)''"

definition to_float :: "rat \<Rightarrow> cell" where
  "to_float q =
     (if q \<ge> 2 ^ 1024 - 2 ^ 970 then PosInf
      else if q \<le> - (2 ^ 1024 - 2 ^ 970) then NegInf
      else Num q)"

text \<open>\<^verbatim>\<open>a <= b\<close> on numbers (False when either side is not a number).\<close>

definition float_le :: "cell \<Rightarrow> cell \<Rightarrow> bool" where
  "float_le a b =
     (case (a, b) of
        (Num x, Num y) \<Rightarrow> x \<le> y
      | (Num x, PosInf) \<Rightarrow> True
      | (NegInf, Num y) \<Rightarrow> True
      | (NegInf, NegInf) \<Rightarrow> True
      | (NegInf, PosInf) \<Rightarrow> True
      | (PosInf, PosInf) \<Rightarrow> True
      | _ \<Rightarrow> False)"

definition gt_zero :: "cell \<Rightarrow> py_error + bool" where
  "gt_zero c =
     (case c of
        Num x \<Rightarrow> Inr (x > 0)
      | PosInf \<Rightarrow> Inr True
      | NegInf \<Rightarrow> Inr False
      | NA \<Rightarrow> Inr False
      | _ \<Rightarrow> Inl type_error)"

definition truediv :: "cell \<Rightarrow> cell \<Rightarrow> py_error + cell" where
  "truediv a b =
     (case b of
        Num y \<Rightarrow>
          (case a of
             Num x \<Rightarrow>
               if y = 0 then Inl (Exc ZeroDivisionError ''division by zero'')
               else Inr (to_float (x / y))
           | PosInf \<Rightarrow>
               if y = 0 then Inl (Exc ZeroDivisionError ''division by zero'')
               else Inr (if y > 0 then PosInf else NegInf)
           | NegInf \<Rightarrow>
               if y = 0 then Inl (Exc ZeroDivisionError ''division by zero'')
               else Inr (if y > 0 then NegInf else PosInf)
           | NA \<Rightarrow> Inr NA
           | _ \<Rightarrow> Inl type_error)
      | PosInf \<Rightarrow>
          (case a of Num x \<Rightarrow> Inr (Num 0) | PosInf \<Rightarrow> Inr NA | NegInf \<Rightarrow> Inr NA
           | NA \<Rightarrow> Inr NA | _ \<Rightarrow> Inl type_error)
      | NegInf \<Rightarrow>
          (case a of Num x \<Rightarrow> Inr (Num 0) | PosInf \<Rightarrow> Inr NA | NegInf \<Rightarrow> Inr NA
           | NA \<Rightarrow> Inr NA | _ \<Rightarrow> Inl type_error)
      | NA \<Rightarrow>
          (case a of Num x \<Rightarrow> Inr NA | PosInf \<Rightarrow> Inr NA | NegInf \<Rightarrow> Inr NA
           | NA \<Rightarrow> Inr NA | _ \<Rightarrow> Inl type_error)
      | _ \<Rightarrow> Inl type_error)"

definition times :: "cell \<Rightarrow> rat \<Rightarrow> py_error + cell" where
  "times a k =
     (case a of
        Num x \<Rightarrow> Inr (to_float (x * k))
      | PosInf \<Rightarrow> Inr (if k > 0 then PosInf else if k < 0 then NegInf else NA)
      | NegInf \<Rightarrow> Inr (if k > 0 then NegInf else if k < 0 then PosInf else NA)
      | NA \<Rightarrow> Inr NA
      | _ \<Rightarrow> Inl type_error)"

text \<open>The lambda of \<^verbatim>\<open>analyze_data\<close>:
  \<^verbatim>\<open>(row['Deaths'] / row['Confirmed'] * 100) if row['Confirmed'] > 0 else 0\<close>.\<close>

definition case_fatality_ratio :: "table \<Rightarrow> row \<Rightarrow> py_error + cell" where
  "case_fatality_ratio df r =
     (case gt_zero (cell_of df ''Confirmed'' r) of
        Inl e \<Rightarrow> Inl e
      | Inr True \<Rightarrow>
          (case truediv (cell_of df ''Deaths'' r) (cell_of df ''Confirmed'' r) of
             Inl e \<Rightarrow> Inl e
           | Inr q \<Rightarrow> times q 100)
      | Inr False \<Rightarrow> Inr (Num 0))"

text \<open>\<^verbatim>\<open>df.apply(f, axis=1)\<close>: the function on every row in order; the first exception
  propagates.\<close>

fun apply_rows :: "(row \<Rightarrow> py_error + cell) \<Rightarrow> row list \<Rightarrow> py_error + cell list" where
  "apply_rows f [] = Inr []"
| "apply_rows f (r # rs) =
     (case f r of
        Inl e \<Rightarrow> Inl e
      | Inr v \<Rightarrow> (case apply_rows f rs of Inl e \<Rightarrow> Inl e | Inr vs \<Rightarrow> Inr (v # vs)))"

definition show_event :: "event \<Rightarrow> world \<Rightarrow> world" where
  "show_event ev w = w\<lparr>display := display w @ [ev]\<rparr>"

text \<open>
  \<^verbatim>\<open>analyze_data(cleaned_data)\<close>. Printing the grouped statistics and rendering the two
  plots are recorded as display events that carry the data handed to the library; what the
  library computes from it is outside the script. The function returns the world, the
  caller's table (the ratio column is assigned in place) and \<^verbatim>\<open>None\<close> or the exception.
\<close>

definition analyze_data :: "env \<Rightarrow> table \<Rightarrow> world \<Rightarrow> world \<times> table \<times> (py_error + unit)" where
  "analyze_data env cleaned_data w =
     (if df_empty cleaned_data
      then (logger_warning ''No data available for analysis.'' w, cleaned_data, Inr ())
      else
        let w1 = (if ''Province_State'' \<in> set (columns cleaned_data)
                  then show_event (Printed_summary cleaned_data) w else w)
        in if {''Deaths'', ''Confirmed''} \<subseteq> set (columns cleaned_data)
           then (case apply_rows (case_fatality_ratio cleaned_data) (rows cleaned_data) of
                   Inl e \<Rightarrow> (w1, cleaned_data, Inl e)
                 | Inr ratios \<Rightarrow>
                     let df' = setitem cleaned_data ''Case_Fatality_Ratio'' ratios;
                         w2 = show_event (Histogram ratios) w1;
                         w3 = show_event (Heatmap df') w2
                     in (w3, df', Inr ()))
           else (w1, cleaned_data, Inr ()))"

section \<open>The entry point\<close>

text \<open>\<^verbatim>\<open>os.path.join\<close> of two POSIX path components.\<close>

definition os_path_join :: "string \<Rightarrow> string \<Rightarrow> string" where
  "os_path_join a b =
     (if b \<noteq> [] \<and> hd b = CHR ''/'' then b
      else if a = [] \<or> last a = CHR ''/'' then a @ b
      else a @ ''/'' @ b)"

definition csv_file_path :: "env \<Rightarrow> string" where
  "csv_file_path env = os_path_join (os_path_join (file_dir env) ''..'') ''01-01-2021 (1).csv''"

definition processed_file_path :: "env \<Rightarrow> string" where
  "processed_file_path env = os_path_join (os_path_join (file_dir env) ''..'') ''processed_data.csv''"

text \<open>The body under \<^verbatim>\<open>if __name__ == '__main__'\<close>: the final world and \<^verbatim>\<open>Inr ()\<close> when
  the script ends normally, \<^verbatim>\<open>Inl e\<close> when an exception reaches the top level.\<close>

definition main :: "env \<Rightarrow> world \<times> (py_error + unit)" where
  "main env =
     (let w0 = logger_warning ''Running analysis on single file only'' initial_world;
          w1 = logger_info (''Attempting to load data from: '' @ csv_file_path env) w0
      in case load_data env (csv_file_path env) (enter Load w1) of
           (w2, Inl e) \<Rightarrow> (w2, Inl e)
         | (w2, Inr None) \<Rightarrow>
             (logger_error ''Data loading failed. Exiting the script.'' w2, Inr ())
         | (w2, Inr (Some df)) \<Rightarrow>
             (case clean_data env df (enter Clean w2) of
                (w3, df', Inl e) \<Rightarrow> (w3, Inl e)
              | (w3, df', Inr cleaned_data) \<Rightarrow>
                  if \<not> df_empty cleaned_data
                  then (case save_cleaned_data env cleaned_data (processed_file_path env)
                               (enter Persist w3) of
                          (w4, Inl e) \<Rightarrow> (w4, Inl e)
                        | (w4, Inr u) \<Rightarrow>
                            (case analyze_data env cleaned_data (enter Analyze w4) of
                               (w5, df'', res) \<Rightarrow> (w5, res)))
                  else (logger_error ''Cleaned data is empty. Exiting the script.'' w3,
                        Inr ())))"

section \<open>A concrete environment\<close>

text \<open>A parser that knows one timestamp of the data set, and an environment built on it,
  for the concrete runs below.\<close>

definition demo_parse :: "cell \<Rightarrow> py_error + int" where
  "demo_parse c =
     (if c = Str ''2021-01-02 05:22:33'' then Inr 1609564953000000000
      else Inl (Exc ValueError ''Unknown datetime string format''))"

definition demo_env :: "table \<Rightarrow> env" where
  "demo_env df =
     \<lparr>read_csv = (\<lambda>p. Inr df), parse_datetime = demo_parse,
      to_csv_error = (\<lambda>p. None), file_dir = ''src''\<rparr>"

definition ts_text :: string where
  "ts_text = ''2021-01-02 05:22:33''"

text \<open>A raw table: a complete US row, a complete non-US row and a row with a missing
  count.\<close>

definition raw_table :: table where
  "raw_table =
     \<lparr>columns = [''Province_State'', ''Country_Region'', ''Last_Update'', ''Lat'', ''Long_'',
                 ''Confirmed'', ''Deaths''],
      rows = [(0, [Str ''Alabama'', Str ''US'', Str ts_text, Num 32, Num (-86), Num 100, Num 5]),
              (1, [Str ''Ontario'', Str ''CA'', Str ts_text, Num 51, Num (-85), Num 40, Num 2]),
              (2, [Str ''Alaska'', Str ''US'', Str ts_text, Num 61, Num (-152), NA, Num 0])]\<rparr>"

text \<open>The raw table as the cleaner leaves it for its caller, and the table it returns.\<close>

definition converted_raw_table :: table where
  "converted_raw_table =
     \<lparr>columns = [''Province_State'', ''Country_Region'', ''Last_Update'', ''Lat'', ''Long_'',
                 ''Confirmed'', ''Deaths''],
      rows = [(0, [Str ''Alabama'', Str ''US'', Time 1609564953000000000, Num 32, Num (-86),
                   Num 100, Num 5]),
              (1, [Str ''Ontario'', Str ''CA'', Time 1609564953000000000, Num 51, Num (-85),
                   Num 40, Num 2])]\<rparr>"

definition cleaned_raw_table :: table where
  "cleaned_raw_table =
     \<lparr>columns = [''Province_State'', ''Country_Region'', ''Last_Update'', ''Confirmed'',
                 ''Deaths''],
      rows = [(0, [Str ''Alabama'', Str ''US'', Time 1609564953000000000, Num 100, Num 5])]\<rparr>"

text \<open>An environment in which writing the output file fails.\<close>

definition readonly_env :: "table \<Rightarrow> env" where
  "readonly_env df =
     (demo_env df)\<lparr>to_csv_error :=
        (\<lambda>p. Some (Exc (OtherException ''PermissionError'') ''Permission denied''))\<rparr>"

text \<open>An environment in which the input file does not exist.\<close>

definition missing_file_env :: env where
  "missing_file_env =
     \<lparr>read_csv = (\<lambda>p. Inl (Exc FileNotFoundError ''No such file or directory'')),
      parse_datetime = demo_parse, to_csv_error = (\<lambda>p. None), file_dir = ''src''\<rparr>"

text \<open>The same data without the country column.\<close>

definition no_country_table :: table where
  "no_country_table =
     \<lparr>columns = [''Province_State'', ''Last_Update'', ''Confirmed'', ''Deaths''],
      rows = [(0, [Str ''Alabama'', Str ts_text, Num 100, Num 5]),
              (1, [Str ''Alaska'', Str ts_text, NA, Num 0])]\<rparr>"

text \<open>A table without the timestamp column.\<close>

definition no_update_table :: table where
  "no_update_table =
     \<lparr>columns = [''Country_Region'', ''Confirmed'', ''Deaths''],
      rows = [(0, [Str ''US'', Num 100, Num 5])]\<rparr>"

text \<open>A table whose timestamp is not a date.\<close>

definition bad_date_table :: table where
  "bad_date_table =
     \<lparr>columns = [''Country_Region'', ''Last_Update'', ''Confirmed''],
      rows = [(0, [Str ''US'', Str ''yesterday'', Num 100])]\<rparr>"

text \<open>A table whose only bad timestamp sits in a row with a missing count.\<close>

definition bad_date_incomplete_table :: table where
  "bad_date_incomplete_table =
     \<lparr>columns = [''Country_Region'', ''Last_Update'', ''Confirmed''],
      rows = [(0, [Str ''US'', Str ts_text, Num 100]),
              (1, [Str ''US'', Str ''yesterday'', NA])]\<rparr>"


text \<open>A cleaned table as \<^verbatim>\<open>read_csv\<close> gives it back from the written file (timestamps
  as text), and the same table with parsed timestamps.\<close>

definition reloaded_table :: table where
  "reloaded_table =
     \<lparr>columns = [''Country_Region'', ''Last_Update'', ''Confirmed''],
      rows = [(0, [Str ''US'', Str ts_text, Num 100])]\<rparr>"

definition cleaned_table :: table where
  "cleaned_table =
     \<lparr>columns = [''Country_Region'', ''Last_Update'', ''Confirmed''],
      rows = [(0, [Str ''US'', Time 1609564953000000000, Num 100])]\<rparr>"

text \<open>A table with a row whose counts are both the float infinity (the text \<^verbatim>\<open>inf\<close> in
  the file), next to a row with finite counts.\<close>

definition inf_table :: table where
  "inf_table =
     \<lparr>columns = [''Country_Region'', ''Last_Update'', ''Confirmed'', ''Deaths''],
      rows = [(0, [Str ''US'', Time 1609564953000000000, PosInf, PosInf]),
              (1, [Str ''US'', Time 1609564953000000000, Num 100, Num 5])]\<rparr>"



text \<open>The cleaned raw table as the analyzer leaves it, with the ratio column.\<close>

definition analyzed_raw_table :: table where
  "analyzed_raw_table =
     \<lparr>columns = [''Province_State'', ''Country_Region'', ''Last_Update'', ''Confirmed'',
                 ''Deaths'', ''Case_Fatality_Ratio''],
      rows = [(0, [Str ''Alabama'', Str ''US'', Time 1609564953000000000, Num 100, Num 5,
                   Num 5])]\<rparr>"

section \<open>Properties\<close>

lemma dropna_columns: "columns (dropna df) = columns df"
  by (simp add: dropna_def)

text \<open>
  C10. A table without the column \<^verbatim>\<open>Last_Update\<close> makes the cleaner raise \<^verbatim>\<open>KeyError\<close>,
  whether or not \<^verbatim>\<open>Country_Region\<close> is there: the timestamp access comes before the check
  of the country column. No empty table is returned, nothing is logged by the cleaner, and
  a run that loads such a table ends with the uncaught exception after the stages Load
  and Clean, with no file written.
\<close>

theorem clean_data_missing_Last_Update:
  assumes "''Last_Update'' \<notin> set (columns df)"
  shows "snd (snd (clean_data env df w)) = Inl (Exc KeyError (repr_str ''Last_Update''))
       \<and> fst (clean_data env df w) = w
       \<and> (read_csv env (csv_file_path env) = Inr df \<longrightarrow>
            snd (main env) = Inl (Exc KeyError (repr_str ''Last_Update''))
          \<and> calls (fst (main env)) = [Load, Clean]
          \<and> written (fst (main env)) = []
          \<and> errors_logged (fst (main env)) = [])"
proof -
  have c: "clean_data env df w = (w, dropna df, Inl (Exc KeyError (repr_str ''Last_Update'')))"
    for w
    using assms by (simp add: clean_data_def getitem_def dropna_columns Let_def)
  show ?thesis
    by (simp add: c main_def load_data_def Let_def logger_info_def logger_warning_def
        logger_log_def enter_def initial_world_def errors_logged_def)
qed

theorem clean_data_missing_Last_Update_witness:
  "''Last_Update'' \<notin> set (columns no_update_table)
   \<and> ''Country_Region'' \<in> set (columns no_update_table)
   \<and> read_csv (demo_env no_update_table) (csv_file_path (demo_env no_update_table))
       = Inr no_update_table
   \<and> snd (snd (clean_data (demo_env no_update_table) no_update_table initial_world))
       = Inl (Exc KeyError (repr_str ''Last_Update''))
   \<and> snd (main (demo_env no_update_table)) = Inl (Exc KeyError (repr_str ''Last_Update''))
   \<and> calls (fst (main (demo_env no_update_table))) = [Load, Clean]"
proof -
  have h: "''Last_Update'' \<notin> set (columns no_update_table)"
    by (simp add: no_update_table_def)
  have r: "read_csv (demo_env no_update_table) (csv_file_path (demo_env no_update_table))
       = Inr no_update_table"
    by (simp add: demo_env_def)
  show ?thesis
    using clean_data_missing_Last_Update [OF h, of "demo_env no_update_table" initial_world] h r
    by (simp add: no_update_table_def)
qed

lemma logger_simps:
  "log_records (logger_log l m w) = log_records w @ [(l, m)]"
  "written (logger_log l m w) = written w"
  "display (logger_log l m w) = display w"
  "calls (logger_log l m w) = calls w"
  by (simp_all add: logger_log_def)

lemma enter_simps:
  "log_records (enter s w) = log_records w"
  "written (enter s w) = written w"
  "display (enter s w) = display w"
  "calls (enter s w) = calls w @ [s]"
  by (simp_all add: enter_def)

lemmas logger_defs = logger_info_def logger_warning_def logger_error_def

text \<open>
  C5. The loader never lets an exception of the read escape: its result is always a value.
  When \<^verbatim>\<open>read_csv\<close> succeeds it returns the table and logs one informational record;
  when \<^verbatim>\<open>read_csv\<close> raises it returns \<^verbatim>\<open>None\<close> and logs one error record, whose text is
  different for a missing file, for unparseable content and for any other exception.
\<close>

theorem load_data_no_exception:
  "(\<exists>r. snd (load_data env p w) = Inr r)
   \<and> (read_csv env p = Inr data \<longrightarrow>
        load_data env p w = (logger_info ''Data successfully loaded'' w, Inr (Some data)))
   \<and> (read_csv env p = Inl (Exc FileNotFoundError m) \<longrightarrow>
        load_data env p w
          = (logger_error (''File not found at path: '' @ p @ ''. Please check the file path.'') w,
             Inr None))
   \<and> (read_csv env p = Inl (Exc ParserError m) \<longrightarrow>
        load_data env p w
          = (logger_error ''Error reading the CSV file. It may be malformed.'' w, Inr None))
   \<and> (read_csv env p = Inl (Exc cls m) \<and> cls \<noteq> FileNotFoundError \<and> cls \<noteq> ParserError \<longrightarrow>
        load_data env p w
          = (logger_error (''An unexpected error occurred: '' @ m) w, Inr None))
   \<and> ''File not found at path: '' @ p @ ''. Please check the file path.''
        \<noteq> ''Error reading the CSV file. It may be malformed.''
   \<and> ''File not found at path: '' @ p @ ''. Please check the file path.''
        \<noteq> ''An unexpected error occurred: '' @ m'
   \<and> ''Error reading the CSV file. It may be malformed.''
        \<noteq> ''An unexpected error occurred: '' @ m'"
  by (auto simp: load_data_def split: sum.splits py_error.splits)

theorem load_data_no_exception_witness:
  "read_csv (demo_env raw_table) ''a.csv'' = Inr raw_table
   \<and> load_data (demo_env raw_table) ''a.csv'' initial_world
       = (logger_info ''Data successfully loaded'' initial_world, Inr (Some raw_table))
   \<and> load_data ((demo_env raw_table)\<lparr>read_csv := \<lambda>p. Inl (Exc FileNotFoundError ''No such file'')\<rparr>)
         ''a.csv'' initial_world
       = (logger_error ''File not found at path: a.csv. Please check the file path.''
            initial_world, Inr None)
   \<and> load_data ((demo_env raw_table)\<lparr>read_csv := \<lambda>p. Inl (Exc ParserError ''Error tokenizing data'')\<rparr>)
         ''a.csv'' initial_world
       = (logger_error ''Error reading the CSV file. It may be malformed.'' initial_world,
          Inr None)
   \<and> load_data ((demo_env raw_table)\<lparr>read_csv := \<lambda>p. Inl (Exc ValueError ''No columns to parse from file'')\<rparr>)
         ''a.csv'' initial_world
       = (logger_error ''An unexpected error occurred: No columns to parse from file''
            initial_world, Inr None)"
  using load_data_no_exception [of "demo_env raw_table" "''a.csv''" initial_world raw_table]
    load_data_no_exception [of "(demo_env raw_table)\<lparr>read_csv := \<lambda>p. Inl (Exc FileNotFoundError ''No such file'')\<rparr>"
      "''a.csv''" initial_world _ "''No such file''"]
    load_data_no_exception [of "(demo_env raw_table)\<lparr>read_csv := \<lambda>p. Inl (Exc ParserError ''Error tokenizing data'')\<rparr>"
      "''a.csv''" initial_world _ "''Error tokenizing data''"]
    load_data_no_exception [of "(demo_env raw_table)\<lparr>read_csv := \<lambda>p. Inl (Exc ValueError ''No columns to parse from file'')\<rparr>"
      "''a.csv''" initial_world _ "''No columns to parse from file''" ValueError]
  by (simp add: demo_env_def)


lemma clean_data_world:
  "written (fst (clean_data env df w)) = written w"
  "display (fst (clean_data env df w)) = display w"
  "calls (fst (clean_data env df w)) = calls w"
  by (simp_all add: clean_data_def Let_def logger_defs logger_simps split: sum.splits)

lemma clean_data_result_indep:
  "snd (clean_data env df w) = snd (clean_data env df w')"
  by (simp add: clean_data_def Let_def split: sum.splits)

lemma save_cleaned_data_world:
  "calls (fst (save_cleaned_data env df p w)) = calls w"
  "display (fst (save_cleaned_data env df p w)) = display w"
  "snd (save_cleaned_data env df p w) = Inr ()"
  by (simp_all add: save_cleaned_data_def to_csv_def logger_defs logger_simps
      split: option.splits py_error.splits)

lemma analyze_data_calls:
  "calls (fst (analyze_data env df w)) = calls w"
  by (simp add: analyze_data_def Let_def logger_defs logger_simps show_event_def
      split: sum.splits)

lemma load_data_world:
  "written (fst (load_data env p w)) = written w"
  "display (fst (load_data env p w)) = display w"
  "calls (fst (load_data env p w)) = calls w"
  by (simp_all add: load_data_def logger_defs logger_simps split: sum.splits py_error.splits)

lemmas table_ops =
  clean_data_def dropna_def getitem_def setitem_def filter_eq_def drop_columns_def
  drop_cells_def cell_of_def to_datetime_value_def null_marker_def nat_strings_def Let_def

lemma clean_raw_table:
  assumes "parse_datetime env = demo_parse"
  shows "snd (clean_data env raw_table w) = (converted_raw_table, Inr cleaned_raw_table)"
  by (simp add: table_ops raw_table_def demo_parse_def ts_text_def assms
      converted_raw_table_def cleaned_raw_table_def)

lemma run_prefix:
  "read_csv env (csv_file_path env) = Inr df \<Longrightarrow>
   main env =
     (case clean_data env df (enter Clean (logger_info ''Data successfully loaded''
        (enter Load (logger_info (''Attempting to load data from: '' @ csv_file_path env)
          (logger_warning ''Running analysis on single file only'' initial_world))))) of
        (w3, df', Inl e) \<Rightarrow> (w3, Inl e)
      | (w3, df', Inr cleaned_data) \<Rightarrow>
          if \<not> df_empty cleaned_data
          then (case save_cleaned_data env cleaned_data (processed_file_path env)
                       (enter Persist w3) of
                  (w4, Inl e) \<Rightarrow> (w4, Inl e)
                | (w4, Inr u) \<Rightarrow>
                    (case analyze_data env cleaned_data (enter Analyze w4) of
                       (w5, df'', res) \<Rightarrow> (w5, res)))
          else (logger_error ''Cleaned data is empty. Exiting the script.'' w3, Inr ()))"
  by (simp add: main_def load_data_def Let_def)

lemma errors_logged_simps:
  "errors_logged (logger_error m w) = errors_logged w @ [m]"
  "errors_logged (logger_info m w) = errors_logged w"
  "errors_logged (logger_warning m w) = errors_logged w"
  "errors_logged (enter s w) = errors_logged w"
  "errors_logged initial_world = []"
  by (simp_all add: errors_logged_def logger_defs logger_simps enter_simps initial_world_def)

lemma world_simps:
  "written (logger_error m w) = written w"
  "written (logger_info m w) = written w"
  "written (logger_warning m w) = written w"
  "display (logger_error m w) = display w"
  "display (logger_info m w) = display w"
  "display (logger_warning m w) = display w"
  "calls (logger_error m w) = calls w"
  "calls (logger_info m w) = calls w"
  "calls (logger_warning m w) = calls w"
  "written initial_world = []"
  "display initial_world = []"
  "calls initial_world = []"
  by (simp_all add: logger_defs logger_simps initial_world_def)

text \<open>
  C8. When the loader returns \<^verbatim>\<open>None\<close>, the run ends normally right after the load
  stage: the stages clean, persist and analyze are never entered, no file is written,
  nothing is displayed, and after the loader's own error record the entry point logs
  \<^verbatim>\<open>Data loading failed. Exiting the script.\<close>
\<close>

theorem main_load_failure:
  assumes "snd (load_data env (csv_file_path env) w) = Inr None"
  shows "snd (main env) = Inr ()
       \<and> calls (fst (main env)) = [Load]
       \<and> written (fst (main env)) = []
       \<and> display (fst (main env)) = []
       \<and> (\<exists>m. errors_logged (fst (main env)) = [m, ''Data loading failed. Exiting the script.''])"
proof -
  obtain cls m where r: "read_csv env (csv_file_path env) = Inl (Exc cls m)"
    using assms by (auto simp: load_data_def split: sum.splits py_error.splits)
  show ?thesis
    by (simp add: main_def load_data_def r Let_def errors_logged_simps world_simps enter_simps)
qed

theorem main_load_failure_witness:
  "snd (load_data missing_file_env (csv_file_path missing_file_env) initial_world) = Inr None
   \<and> snd (main missing_file_env) = Inr ()
   \<and> calls (fst (main missing_file_env)) = [Load]
   \<and> written (fst (main missing_file_env)) = []
   \<and> errors_logged (fst (main missing_file_env))
       = [''File not found at path: src/../01-01-2021 (1).csv. Please check the file path.'',
          ''Data loading failed. Exiting the script.'']"
proof -
  have h: "snd (load_data missing_file_env (csv_file_path missing_file_env) initial_world)
      = Inr None"
    by (simp add: load_data_def missing_file_env_def)
  have e: "errors_logged (fst (main missing_file_env))
       = [''File not found at path: src/../01-01-2021 (1).csv. Please check the file path.'',
          ''Data loading failed. Exiting the script.'']"
    by (simp add: main_def load_data_def missing_file_env_def Let_def errors_logged_simps
        enter_simps csv_file_path_def os_path_join_def)
  show ?thesis
    using main_load_failure [OF h] h e by simp
qed


lemma getitem_Inr_columns: "getitem df name = Inr col \<Longrightarrow> name \<in> set (columns df)"
  by (simp add: getitem_def split: if_splits)

lemma setitem_columns: "name \<in> set (columns df) \<Longrightarrow> columns (setitem df name vals) = columns df"
  by (simp add: setitem_def)

lemma clean_data_no_country:
  assumes "''Country_Region'' \<notin> set (columns df)"
    and "getitem (dropna df) ''Last_Update'' = Inr col"
    and "to_datetime (parse_datetime env) col = Inr ts"
  shows "clean_data env df w =
     (logger_error (sq @ ''Country_Region'' @ sq @ '' column not found.'')
        (logger_info (''Columns in the dataset: '' @ repr_list (columns df)) w),
      setitem (dropna df) ''Last_Update'' ts, Inr DataFrame_empty)"
  using assms getitem_Inr_columns [OF assms(2)]
  by (simp add: clean_data_def Let_def setitem_columns dropna_columns)

text \<open>
  C3, as stated, fails on the count of error records. For a table without the country
  column the cleaner logs an error and returns the empty table, and the entry point, seeing
  an empty table, logs a second error: the run logs two error records, not one.
\<close>

theorem missing_country_logs_two_errors:
  "''Country_Region'' \<notin> set (columns no_country_table)
   \<and> snd (snd (clean_data (demo_env no_country_table) no_country_table initial_world))
       = Inr DataFrame_empty
   \<and> calls (fst (main (demo_env no_country_table))) = [Load, Clean]
   \<and> errors_logged (fst (main (demo_env no_country_table)))
       = [sq @ ''Country_Region'' @ sq @ '' column not found.'',
          ''Cleaned data is empty. Exiting the script.'']
   \<and> length (errors_logged (fst (main (demo_env no_country_table)))) \<noteq> 1"
proof -
  have g: "getitem (dropna no_country_table) ''Last_Update'' = Inr [Str ts_text]"
    by (simp add: getitem_def dropna_def cell_of_def no_country_table_def)
  have t: "to_datetime (parse_datetime (demo_env no_country_table)) [Str ts_text]
      = Inr [Time 1609564953000000000]"
    by (simp add: to_datetime_value_def null_marker_def nat_strings_def demo_env_def demo_parse_def ts_text_def)
  have n: "''Country_Region'' \<notin> set (columns no_country_table)"
    by (simp add: no_country_table_def)
  have r: "read_csv (demo_env no_country_table) (csv_file_path (demo_env no_country_table))
      = Inr no_country_table"
    by (simp add: demo_env_def)
  show ?thesis
    using n
    by (simp add: run_prefix [OF r] clean_data_no_country [OF n g t] DataFrame_empty_def
        df_empty_def errors_logged_simps world_simps enter_simps)
qed

text \<open>
  C3, amended. For a table without the column \<^verbatim>\<open>Country_Region\<close> whose timestamp column
  exists and parses, the cleaner returns the empty table after logging one error record; a
  run on such a table ends normally after the stages Load and Clean, with no file written
  and nothing displayed, and logs exactly two error records: the cleaner's
  \<^verbatim>\<open>'Country_Region' column not found.\<close> and the entry point's
  \<^verbatim>\<open>Cleaned data is empty. Exiting the script.\<close>
\<close>

theorem clean_data_missing_Country_Region:
  assumes "''Country_Region'' \<notin> set (columns df)"
    and "getitem (dropna df) ''Last_Update'' = Inr col"
    and "to_datetime (parse_datetime env) col = Inr ts"
  shows "snd (snd (clean_data env df w)) = Inr DataFrame_empty
       \<and> errors_logged (fst (clean_data env df w))
           = errors_logged w @ [sq @ ''Country_Region'' @ sq @ '' column not found.'']
       \<and> (read_csv env (csv_file_path env) = Inr df \<longrightarrow>
            snd (main env) = Inr ()
          \<and> calls (fst (main env)) = [Load, Clean]
          \<and> written (fst (main env)) = []
          \<and> display (fst (main env)) = []
          \<and> errors_logged (fst (main env))
              = [sq @ ''Country_Region'' @ sq @ '' column not found.'',
                 ''Cleaned data is empty. Exiting the script.''])"
  by (simp add: run_prefix clean_data_no_country [OF assms] DataFrame_empty_def
      df_empty_def errors_logged_simps world_simps enter_simps)

theorem clean_data_missing_Country_Region_witness:
  "''Country_Region'' \<notin> set (columns no_country_table)
   \<and> getitem (dropna no_country_table) ''Last_Update'' = Inr [Str ts_text]
   \<and> to_datetime (parse_datetime (demo_env no_country_table)) [Str ts_text]
       = Inr [Time 1609564953000000000]
   \<and> read_csv (demo_env no_country_table) (csv_file_path (demo_env no_country_table))
       = Inr no_country_table
   \<and> snd (snd (clean_data (demo_env no_country_table) no_country_table initial_world))
       = Inr DataFrame_empty
   \<and> snd (main (demo_env no_country_table)) = Inr ()
   \<and> calls (fst (main (demo_env no_country_table))) = [Load, Clean]
   \<and> written (fst (main (demo_env no_country_table))) = []
   \<and> display (fst (main (demo_env no_country_table))) = []"
proof -
  have g: "getitem (dropna no_country_table) ''Last_Update'' = Inr [Str ts_text]"
    by (simp add: getitem_def dropna_def cell_of_def no_country_table_def)
  have t: "to_datetime (parse_datetime (demo_env no_country_table)) [Str ts_text]
      = Inr [Time 1609564953000000000]"
    by (simp add: to_datetime_value_def null_marker_def nat_strings_def demo_env_def demo_parse_def ts_text_def)
  have n: "''Country_Region'' \<notin> set (columns no_country_table)"
    by (simp add: no_country_table_def)
  have r: "read_csv (demo_env no_country_table) (csv_file_path (demo_env no_country_table))
      = Inr no_country_table"
    by (simp add: demo_env_def)
  show ?thesis
    using clean_data_missing_Country_Region [OF n g t, of initial_world] n g t r by simp
qed

text \<open>
  C9. The cleaner changes the table of its caller: whenever the timestamp column exists
  and parses, the caller's table after the call is the input without its incomplete rows
  and with the timestamp column converted. This also holds on the path that finds no
  country column and returns the empty table: the caller's table has been changed by then.
\<close>

theorem clean_data_mutates_input:
  assumes "getitem (dropna df) ''Last_Update'' = Inr col"
    and "to_datetime (parse_datetime env) col = Inr ts"
  shows "fst (snd (clean_data env df w)) = setitem (dropna df) ''Last_Update'' ts
       \<and> (''Country_Region'' \<notin> set (columns df) \<longrightarrow>
            snd (snd (clean_data env df w)) = Inr DataFrame_empty)"
  using assms getitem_Inr_columns [OF assms(1)]
  by (simp add: clean_data_def Let_def setitem_columns dropna_columns)

theorem clean_data_mutates_input_witness:
  "getitem (dropna no_country_table) ''Last_Update'' = Inr [Str ts_text]
   \<and> to_datetime (parse_datetime (demo_env no_country_table)) [Str ts_text]
       = Inr [Time 1609564953000000000]
   \<and> ''Country_Region'' \<notin> set (columns no_country_table)
   \<and> snd (snd (clean_data (demo_env no_country_table) no_country_table initial_world))
       = Inr DataFrame_empty
   \<and> fst (snd (clean_data (demo_env no_country_table) no_country_table initial_world))
       = \<lparr>columns = [''Province_State'', ''Last_Update'', ''Confirmed'', ''Deaths''],
          rows = [(0, [Str ''Alabama'', Time 1609564953000000000, Num 100, Num 5])]\<rparr>
   \<and> fst (snd (clean_data (demo_env no_country_table) no_country_table initial_world))
       \<noteq> no_country_table"
proof -
  have g: "getitem (dropna no_country_table) ''Last_Update'' = Inr [Str ts_text]"
    by (simp add: getitem_def dropna_def cell_of_def no_country_table_def)
  have t: "to_datetime (parse_datetime (demo_env no_country_table)) [Str ts_text]
      = Inr [Time 1609564953000000000]"
    by (simp add: to_datetime_value_def null_marker_def nat_strings_def demo_env_def demo_parse_def ts_text_def)
  have n: "''Country_Region'' \<notin> set (columns no_country_table)"
    by (simp add: no_country_table_def)
  have s: "setitem (dropna no_country_table) ''Last_Update'' [Time 1609564953000000000]
      = \<lparr>columns = [''Province_State'', ''Last_Update'', ''Confirmed'', ''Deaths''],
          rows = [(0, [Str ''Alabama'', Time 1609564953000000000, Num 100, Num 5])]\<rparr>"
    by (simp add: setitem_def dropna_def no_country_table_def)
  have d: "\<lparr>columns = [''Province_State'', ''Last_Update'', ''Confirmed'', ''Deaths''],
          rows = [(0, [Str ''Alabama'', Time 1609564953000000000, Num 100, Num 5])]\<rparr>
       \<noteq> no_country_table"
    by (simp add: no_country_table_def)
  show ?thesis
    using clean_data_mutates_input [OF g t, of initial_world] g t n s d by simp
qed

lemma to_datetime_raises:
  "\<exists>c\<in>set cs. \<exists>e. to_datetime_value parse c = Inl e \<Longrightarrow>
   \<exists>e. (\<exists>c\<in>set cs. to_datetime_value parse c = Inl e) \<and> to_datetime parse cs = Inl e"
proof (induction cs)
  case Nil
  then show ?case by simp
next
  case (Cons c cs)
  show ?case
  proof (cases "to_datetime_value parse c")
    case (Inl e)
    then show ?thesis by auto
  next
    case (Inr v)
    with Cons.prems have "\<exists>c\<in>set cs. \<exists>e. to_datetime_value parse c = Inl e" by auto
    from Cons.IH [OF this] obtain e where
      "\<exists>c\<in>set cs. to_datetime_value parse c = Inl e" "to_datetime parse cs = Inl e" by blast
    with Inr show ?thesis by auto
  qed
qed

lemma cell_of_dropna: "cell_of (dropna df) name r = cell_of df name r"
  by (simp add: cell_of_def dropna_columns)

text \<open>
  C7, as stated, fails when every unparseable timestamp sits in a row that has a missing
  value: the timestamp column of the input cannot be parsed, but the incomplete rows are
  dropped before the column is parsed, so the cleaner raises nothing and returns the
  complete rows.
\<close>

theorem unparseable_timestamp_in_dropped_row:
  "''Last_Update'' \<in> set (columns bad_date_incomplete_table)
   \<and> getitem bad_date_incomplete_table ''Last_Update'' = Inr [Str ts_text, Str ''yesterday'']
   \<and> to_datetime demo_parse [Str ts_text, Str ''yesterday'']
       = Inl (Exc ValueError ''Unknown datetime string format'')
   \<and> snd (snd (clean_data (demo_env bad_date_incomplete_table) bad_date_incomplete_table
                  initial_world))
       = Inr cleaned_table"
  by (simp add: table_ops bad_date_incomplete_table_def cleaned_table_def demo_env_def
      demo_parse_def ts_text_def)

text \<open>
  C7, amended. When the timestamp column exists and some row without missing values holds
  a timestamp that the parser rejects, the cleaner raises the parser's exception: it logs
  nothing, returns no table (in particular no empty table), and leaves its caller the table
  without the incomplete rows. A run on such a table ends with that exception after the
  stages Load and Clean, with no file written and no error record.
\<close>

theorem clean_data_unparseable_timestamp:
  assumes "''Last_Update'' \<in> set (columns df)"
    and "\<exists>r\<in>set (rows (dropna df)). \<exists>e.
           to_datetime_value (parse_datetime env) (cell_of df ''Last_Update'' r) = Inl e"
  shows "\<exists>e. (\<exists>r\<in>set (rows (dropna df)).
                 to_datetime_value (parse_datetime env) (cell_of df ''Last_Update'' r) = Inl e)
            \<and> clean_data env df w = (w, dropna df, Inl e)
            \<and> (read_csv env (csv_file_path env) = Inr df \<longrightarrow>
                 snd (main env) = Inl e
               \<and> calls (fst (main env)) = [Load, Clean]
               \<and> written (fst (main env)) = []
               \<and> errors_logged (fst (main env)) = [])"
proof -
  let ?col = "map (cell_of (dropna df) ''Last_Update'') (rows (dropna df))"
  have g: "getitem (dropna df) ''Last_Update'' = Inr ?col"
    using assms(1) by (simp add: getitem_def dropna_columns)
  have "\<exists>c\<in>set ?col. \<exists>e. to_datetime_value (parse_datetime env) c = Inl e"
    using assms(2) by (auto simp: cell_of_dropna)
  from to_datetime_raises [OF this] obtain e where
    e1: "\<exists>c\<in>set ?col. to_datetime_value (parse_datetime env) c = Inl e"
    and e2: "to_datetime (parse_datetime env) ?col = Inl e" by blast
  have e3: "\<exists>r\<in>set (rows (dropna df)).
      to_datetime_value (parse_datetime env) (cell_of df ''Last_Update'' r) = Inl e"
    using e1 by (auto simp: cell_of_dropna)
  have c: "clean_data env df w = (w, dropna df, Inl e)" for w
    using g e2 by (simp add: clean_data_def Let_def)
  have "snd (main env) = Inl e \<and> calls (fst (main env)) = [Load, Clean]
      \<and> written (fst (main env)) = [] \<and> errors_logged (fst (main env)) = []"
    if "read_csv env (csv_file_path env) = Inr df"
    by (simp add: run_prefix [OF that] c errors_logged_simps world_simps enter_simps)
  with e3 c show ?thesis by blast
qed

theorem clean_data_unparseable_timestamp_witness:
  "''Last_Update'' \<in> set (columns bad_date_table)
   \<and> (0, [Str ''US'', Str ''yesterday'', Num 100]) \<in> set (rows (dropna bad_date_table))
   \<and> to_datetime_value (parse_datetime (demo_env bad_date_table))
         (cell_of bad_date_table ''Last_Update'' (0, [Str ''US'', Str ''yesterday'', Num 100]))
       = Inl (Exc ValueError ''Unknown datetime string format'')
   \<and> read_csv (demo_env bad_date_table) (csv_file_path (demo_env bad_date_table))
       = Inr bad_date_table
   \<and> clean_data (demo_env bad_date_table) bad_date_table initial_world
       = (initial_world, bad_date_table, Inl (Exc ValueError ''Unknown datetime string format''))
   \<and> snd (main (demo_env bad_date_table))
       = Inl (Exc ValueError ''Unknown datetime string format'')
   \<and> calls (fst (main (demo_env bad_date_table))) = [Load, Clean]
   \<and> written (fst (main (demo_env bad_date_table))) = []
   \<and> errors_logged (fst (main (demo_env bad_date_table))) = []"
proof -
  have h1: "''Last_Update'' \<in> set (columns bad_date_table)"
    by (simp add: bad_date_table_def)
  have d: "dropna bad_date_table = bad_date_table"
    by (simp add: dropna_def bad_date_table_def)
  have rws: "rows (dropna bad_date_table) = [(0, [Str ''US'', Str ''yesterday'', Num 100])]"
    by (simp add: dropna_def bad_date_table_def)
  have v: "to_datetime_value (parse_datetime (demo_env bad_date_table))
         (cell_of bad_date_table ''Last_Update'' (0, [Str ''US'', Str ''yesterday'', Num 100]))
       = Inl (Exc ValueError ''Unknown datetime string format'')"
    by (simp add: to_datetime_value_def null_marker_def nat_strings_def demo_env_def demo_parse_def
        cell_of_def bad_date_table_def)
  have h2: "\<exists>r\<in>set (rows (dropna bad_date_table)). \<exists>e.
      to_datetime_value (parse_datetime (demo_env bad_date_table))
        (cell_of bad_date_table ''Last_Update'' r) = Inl e"
    using v by (simp add: rws)
  have r: "read_csv (demo_env bad_date_table) (csv_file_path (demo_env bad_date_table))
       = Inr bad_date_table"
    by (simp add: demo_env_def)
  from clean_data_unparseable_timestamp [OF h1 h2, of initial_world] obtain e where
    a: "\<exists>r\<in>set (rows (dropna bad_date_table)).
          to_datetime_value (parse_datetime (demo_env bad_date_table))
            (cell_of bad_date_table ''Last_Update'' r) = Inl e"
    and b: "clean_data (demo_env bad_date_table) bad_date_table initial_world
          = (initial_world, dropna bad_date_table, Inl e)"
    and m: "read_csv (demo_env bad_date_table) (csv_file_path (demo_env bad_date_table))
          = Inr bad_date_table \<longrightarrow>
            snd (main (demo_env bad_date_table)) = Inl e
          \<and> calls (fst (main (demo_env bad_date_table))) = [Load, Clean]
          \<and> written (fst (main (demo_env bad_date_table))) = []
          \<and> errors_logged (fst (main (demo_env bad_date_table))) = []"
    by blast
  have e: "e = Exc ValueError ''Unknown datetime string format''"
    using a v by (simp add: rws)
  have mem: "(0, [Str ''US'', Str ''yesterday'', Num 100]) \<in> set (rows (dropna bad_date_table))"
    by (simp add: rws)
  have b': "clean_data (demo_env bad_date_table) bad_date_table initial_world
      = (initial_world, bad_date_table, Inl (Exc ValueError ''Unknown datetime string format''))"
    using b by (simp add: d e)
  show ?thesis
    using h1 v r b' m mem e by blast
qed

lemma apply_rows_all2:
  "apply_rows f rs = Inr vs \<Longrightarrow> list_all2 (\<lambda>r v. f r = Inr v) rs vs"
  by (induction rs arbitrary: vs) (auto split: sum.splits)

lemma index_of_less: "n \<in> set cols \<Longrightarrow> index_of cols n < length cols"
  by (induction cols) auto




lemma drop_cells_id:
  "length cs = length cols \<Longrightarrow> \<forall>c\<in>set cols. c \<notin> set names \<Longrightarrow> drop_cells names cols cs = cs"
proof -
  assume l: "length cs = length cols" and k: "\<forall>c\<in>set cols. c \<notin> set names"
  have "filter (\<lambda>p. fst p \<notin> set names) (zip cols cs) = zip cols cs"
    using k by (auto simp: filter_id_conv dest: set_zip_leftD)
  then show ?thesis using l by (simp add: drop_cells_def)
qed

lemma to_datetime_all2:
  "to_datetime parse cs = Inr vs \<Longrightarrow> list_all2 (\<lambda>c v. to_datetime_value parse c = Inr v) cs vs"
  by (induction cs arbitrary: vs) (auto split: sum.splits)

lemma to_datetime_Time:
  "\<forall>c\<in>set cs. \<exists>t. c = Time t \<Longrightarrow> to_datetime parse cs = Inr cs"
  by (induction cs) (auto simp: to_datetime_value_def)

lemma to_datetime_value_cases:
  "to_datetime_value parse c = Inr v \<Longrightarrow> v = NA \<or> (\<exists>t. v = Time t)"
  by (auto simp: to_datetime_value_def split: cell.splits if_splits sum.splits)


lemma setitem_rows:
  assumes "name \<in> set (columns df)" and "r' \<in> set (rows (setitem df name vals))"
  shows "\<exists>r v. (r, v) \<in> set (zip (rows df) vals)
           \<and> r' = (fst r, (snd r)[index_of (columns df) name := v])"
proof -
  from assms obtain p where p: "p \<in> set (zip (rows df) vals)"
    and r': "r' = (fst (fst p), (snd (fst p))[index_of (columns df) name := snd p])"
    by (auto simp: setitem_def)
  show ?thesis
    by (rule exI [of _ "fst p"], rule exI [of _ "snd p"]) (simp add: p r')
qed

lemma zip_map_all2:
  "list_all2 P (map f xs) ys \<Longrightarrow> (x, y) \<in> set (zip xs ys) \<Longrightarrow> P (f x) y"
  by (auto simp: list_all2_iff zip_map1)


text \<open>Every row of the returned table comes from a complete row of the input: its
  timestamp cell is replaced by the converted value, and the coordinate cells are removed.\<close>

lemma cleaned_row_origin:
  assumes lu: "''Last_Update'' \<in> set (columns df)"
    and td: "to_datetime parse (map (cell_of df ''Last_Update'') (rows (dropna df))) = Inr ts"
    and r: "r \<in> set (rows (drop_columns names
              (filter_eq (setitem (dropna df) ''Last_Update'' ts) ''Country_Region'' ''US'')))"
  shows "\<exists>r1 v. r1 \<in> set (rows df) \<and> NA \<notin> set (snd r1)
           \<and> to_datetime_value parse (cell_of df ''Last_Update'' r1) = Inr v
           \<and> (snd r1)[index_of (columns df) ''Last_Update'' := v]
                ! index_of (columns df) ''Country_Region'' = Str ''US''
           \<and> r = (fst r1, drop_cells names (columns df)
                             ((snd r1)[index_of (columns df) ''Last_Update'' := v]))"
proof -
  let ?df2 = "setitem (dropna df) ''Last_Update'' ts"
  have c2: "columns ?df2 = columns df"
    using lu by (simp add: setitem_columns dropna_columns)
  from r obtain r2 where r2: "r2 \<in> set (rows ?df2)"
    and us: "cell_of ?df2 ''Country_Region'' r2 = Str ''US''"
    and req: "r = (fst r2, drop_cells names (columns df) (snd r2))"
    by (auto simp: drop_columns_def filter_eq_def c2)
  from setitem_rows [OF _ r2] lu obtain r1 v where
    z: "(r1, v) \<in> set (zip (rows (dropna df)) ts)"
    and r2eq: "r2 = (fst r1, (snd r1)[index_of (columns df) ''Last_Update'' := v])"
    by (auto simp: dropna_columns)
  have r1: "r1 \<in> set (rows df)" "NA \<notin> set (snd r1)"
    using set_zip_leftD [OF z] by (auto simp: dropna_def)
  have v: "to_datetime_value parse (cell_of df ''Last_Update'' r1) = Inr v"
    using zip_map_all2 [OF to_datetime_all2 [OF td] z] .
  have us': "(snd r1)[index_of (columns df) ''Last_Update'' := v]
      ! index_of (columns df) ''Country_Region'' = Str ''US''"
    using us by (simp add: cell_of_def c2 r2eq)
  show ?thesis
    by (rule exI [of _ r1], rule exI [of _ v]) (simp add: r1 v us' req r2eq)
qed




lemma setitem_same:
  assumes "name \<in> set (columns df)"
  shows "setitem df name (map (cell_of df name) (rows df)) = df"
proof -
  have "map (\<lambda>(r, v). (fst r, (snd r)[index_of (columns df) name := v]))
          (zip (rows df) (map (cell_of df name) (rows df))) = rows df"
    by (simp add: zip_map2 zip_same_conv_map cell_of_def o_def)
  then show ?thesis using assms by (simp add: setitem_def)
qed

text \<open>
  C4, as stated, fails. A table with no missing values, only \<^verbatim>\<open>US\<close> rows and no
  coordinate columns can still hold its timestamps as text (a cleaned table read back from
  the written file does): cleaning it again returns a different table, with the timestamps
  parsed. And the empty table the cleaner returns when the country column is missing has
  no timestamp column: cleaning it again raises \<^verbatim>\<open>KeyError\<close>.
\<close>

theorem cleaning_reloaded_table_changes_it:
  "rows reloaded_table = [(0, [Str ''US'', Str ts_text, Num 100])]
   \<and> NA \<notin> set (snd (0::nat, [Str ''US'', Str ts_text, Num 100]))
   \<and> cell_of reloaded_table ''Country_Region'' (0, [Str ''US'', Str ts_text, Num 100])
       = Str ''US''
   \<and> ''Long_'' \<notin> set (columns reloaded_table)
   \<and> ''Lat'' \<notin> set (columns reloaded_table)
   \<and> snd (snd (clean_data (demo_env reloaded_table) reloaded_table initial_world))
       = Inr cleaned_table
   \<and> cleaned_table \<noteq> reloaded_table
   \<and> snd (snd (clean_data (demo_env DataFrame_empty) DataFrame_empty initial_world))
       = Inl (Exc KeyError (repr_str ''Last_Update''))"
  by (simp add: table_ops reloaded_table_def cleaned_table_def demo_env_def demo_parse_def
      ts_text_def DataFrame_empty_def)

text \<open>
  C4, amended. A well-formed table that has the columns \<^verbatim>\<open>Last_Update\<close> and
  \<^verbatim>\<open>Country_Region\<close>, no missing value, a parsed timestamp and the country \<^verbatim>\<open>US\<close> in
  every row and neither \<^verbatim>\<open>Long_\<close> nor \<^verbatim>\<open>Lat\<close> is a fixed point of the cleaner: the
  table returned is the input, and the caller's table is left as it was.
\<close>

theorem clean_data_idempotent:
  assumes wf: "wf_table df"
    and lu: "''Last_Update'' \<in> set (columns df)"
    and cr: "''Country_Region'' \<in> set (columns df)"
    and nolong: "''Long_'' \<notin> set (columns df)" and nolat: "''Lat'' \<notin> set (columns df)"
    and complete: "\<forall>r\<in>set (rows df). NA \<notin> set (snd r)"
    and parsed: "\<forall>r\<in>set (rows df). \<exists>t. cell_of df ''Last_Update'' r = Time t"
    and us: "\<forall>r\<in>set (rows df). cell_of df ''Country_Region'' r = Str ''US''"
  shows "snd (clean_data env df w) = (df, Inr df)"
proof -
  have d: "dropna df = df"
    using complete by (simp add: dropna_def)
  have g: "getitem df ''Last_Update'' = Inr (map (cell_of df ''Last_Update'') (rows df))"
    using lu by (simp add: getitem_def)
  have t: "to_datetime (parse_datetime env) (map (cell_of df ''Last_Update'') (rows df))
      = Inr (map (cell_of df ''Last_Update'') (rows df))"
    using parsed by (intro to_datetime_Time) auto
  have f: "filter_eq df ''Country_Region'' ''US'' = df"
    using us by (simp add: filter_eq_def)
  have k: "filter (\<lambda>c. c \<notin> set [''Long_'', ''Lat'']) (columns df) = columns df"
    using nolong nolat by (auto simp: filter_id_conv)
  have "map (\<lambda>r. (fst r, drop_cells [''Long_'', ''Lat''] (columns df) (snd r))) (rows df)
      = rows df"
  proof (rule map_idI)
    fix r assume "r \<in> set (rows df)"
    then have "length (snd r) = length (columns df)" using wf by (simp add: wf_table_def)
    then have "drop_cells [''Long_'', ''Lat''] (columns df) (snd r) = snd r"
      using nolong nolat by (intro drop_cells_id) auto
    then show "(fst r, drop_cells [''Long_'', ''Lat''] (columns df) (snd r)) = r" by simp
  qed
  then have dc: "drop_columns [''Long_'', ''Lat''] df = df"
    using k by (simp add: drop_columns_def)
  show ?thesis
    using cr by (simp add: clean_data_def d g t setitem_same [OF lu] f dc Let_def)
qed

theorem clean_data_idempotent_witness:
  "wf_table cleaned_table
   \<and> ''Last_Update'' \<in> set (columns cleaned_table)
   \<and> ''Country_Region'' \<in> set (columns cleaned_table)
   \<and> ''Long_'' \<notin> set (columns cleaned_table) \<and> ''Lat'' \<notin> set (columns cleaned_table)
   \<and> rows cleaned_table = [(0, [Str ''US'', Time 1609564953000000000, Num 100])]
   \<and> NA \<notin> set (snd (0::nat, [Str ''US'', Time 1609564953000000000, Num 100]))
   \<and> cell_of cleaned_table ''Last_Update'' (0, [Str ''US'', Time 1609564953000000000, Num 100])
       = Time 1609564953000000000
   \<and> cell_of cleaned_table ''Country_Region'' (0, [Str ''US'', Time 1609564953000000000, Num 100])
       = Str ''US''
   \<and> snd (clean_data (demo_env cleaned_table) cleaned_table initial_world)
       = (cleaned_table, Inr cleaned_table)"
proof -
  have h: "wf_table cleaned_table" "''Last_Update'' \<in> set (columns cleaned_table)"
    "''Country_Region'' \<in> set (columns cleaned_table)"
    "''Long_'' \<notin> set (columns cleaned_table)" "''Lat'' \<notin> set (columns cleaned_table)"
    "\<forall>r\<in>set (rows cleaned_table). NA \<notin> set (snd r)"
    "\<forall>r\<in>set (rows cleaned_table). \<exists>t. cell_of cleaned_table ''Last_Update'' r = Time t"
    "\<forall>r\<in>set (rows cleaned_table). cell_of cleaned_table ''Country_Region'' r = Str ''US''"
    by (simp_all add: cleaned_table_def wf_table_def cell_of_def)
  have c: "rows cleaned_table = [(0, [Str ''US'', Time 1609564953000000000, Num 100])]"
    "cell_of cleaned_table ''Last_Update'' (0, [Str ''US'', Time 1609564953000000000, Num 100])
       = Time 1609564953000000000"
    "cell_of cleaned_table ''Country_Region'' (0, [Str ''US'', Time 1609564953000000000, Num 100])
       = Str ''US''"
    by (simp_all add: cleaned_table_def cell_of_def)
  show ?thesis
    using clean_data_idempotent [OF h, of "demo_env cleaned_table" initial_world] h(1-5) c
    by simp
qed








lemma index_of_append_new: "n \<notin> set cols \<Longrightarrow> index_of (cols @ [n]) n = length cols"
  by (induction cols) auto

lemma setitem_length:
  "length vals = length (rows df) \<Longrightarrow> length (rows (setitem df name vals)) = length (rows df)"
  by (simp add: setitem_def)

lemma setitem_cell:
  assumes wf: "wf_table df" and len: "length vals = length (rows df)"
    and k: "k < length (rows df)"
  shows "cell_of (setitem df name vals) name (rows (setitem df name vals) ! k) = vals ! k"
proof -
  have lk: "length (snd (rows df ! k)) = length (columns df)"
    using wf k by (simp add: wf_table_def)
  show "cell_of (setitem df name vals) name (rows (setitem df name vals) ! k) = vals ! k"
  proof (cases "name \<in> set (columns df)")
    case True
    then show ?thesis
      using len k lk index_of_less [OF True] by (simp add: setitem_def cell_of_def)
  next
    case False
    then show ?thesis
      using len k lk by (simp add: setitem_def cell_of_def index_of_append_new nth_append)
  qed
qed

text \<open>
  C2, as stated, fails at infinite counts. A row whose confirmed and deaths counts are
  both the float infinity satisfies \<open>confirmed \<ge> deaths \<ge> 0\<close>, the guard
  \<^verbatim>\<open>row['Confirmed'] > 0\<close> is True, and the ratio is infinity divided by infinity times
  100, which is \<^verbatim>\<open>NaN\<close>: not a value between 0 and 100.
\<close>

theorem case_fatality_ratio_inf_is_NaN:
  "cell_of inf_table ''Confirmed'' (0, [Str ''US'', Time 1609564953000000000, PosInf, PosInf])
     = PosInf
   \<and> cell_of inf_table ''Deaths'' (0, [Str ''US'', Time 1609564953000000000, PosInf, PosInf])
     = PosInf
   \<and> float_le (Num 0) PosInf \<and> float_le PosInf PosInf
   \<and> case_fatality_ratio inf_table (0, [Str ''US'', Time 1609564953000000000, PosInf, PosInf])
     = Inr NA
   \<and> apply_rows (case_fatality_ratio inf_table) (rows inf_table) = Inr [NA, Num 5]"
  by (simp add: inf_table_def cell_of_def case_fatality_ratio_def gt_zero_def truediv_def
      times_def to_float_def float_le_def)

text \<open>
  C2, amended. For a row with a finite deaths count \<open>deaths \<ge> 0\<close> and a confirmed count
  \<open>confirmed \<ge> deaths\<close> (finite or infinite), the ratio is a number between 0 and 100;
  for a row whose confirmed count is 0 it is exactly 0 whatever the deaths cell holds (the
  division is not evaluated). When the analyzer returns for a non-empty table with both
  count columns, the column \<^verbatim>\<open>Case_Fatality_Ratio\<close> of its table holds, row by row, the
  value of this function on the row.
\<close>

theorem case_fatality_ratio_range:
  "(cell_of df ''Deaths'' r = Num d \<and> 0 \<le> d
      \<and> float_le (Num d) (cell_of df ''Confirmed'' r) \<longrightarrow>
      (\<exists>x. case_fatality_ratio df r = Inr (Num x) \<and> 0 \<le> x \<and> x \<le> 100))
   \<and> (cell_of df ''Confirmed'' r = Num 0 \<longrightarrow> case_fatality_ratio df r = Inr (Num 0))
   \<and> (wf_table df \<and> \<not> df_empty df
        \<and> ''Deaths'' \<in> set (columns df) \<and> ''Confirmed'' \<in> set (columns df)
        \<and> analyze_data env df w = (w', df', Inr ()) \<longrightarrow>
        length (rows df') = length (rows df)
        \<and> (\<forall>k<length (rows df).
              case_fatality_ratio df (rows df ! k)
                = Inr (cell_of df' ''Case_Fatality_Ratio'' (rows df' ! k))))"
proof -
  have small: "to_float q = Num q" if "0 \<le> q" "q \<le> 100" for q
  proof -
    have "(100::rat) < 2 ^ 1024 - 2 ^ 970" by simp
    then show ?thesis using that by (simp add: to_float_def)
  qed
  have a: "\<exists>x. case_fatality_ratio df r = Inr (Num x) \<and> 0 \<le> x \<and> x \<le> 100"
    if d: "cell_of df ''Deaths'' r = Num d" and d0: "0 \<le> d"
      and le: "float_le (Num d) (cell_of df ''Confirmed'' r)"
  proof (cases "cell_of df ''Confirmed'' r")
    case (Num c)
    then have dc: "d \<le> c" using le by (simp add: float_le_def)
    show ?thesis
    proof (cases "c > 0")
      case True
      have q: "0 \<le> d / c" "d / c \<le> 100" using True d0 dc by (simp_all add: field_simps)
      have p: "0 \<le> d / c * 100" "d / c * 100 \<le> 100" using True d0 dc by (simp_all add: field_simps)
      show ?thesis
        using True Num d small [OF q] small [OF p] p
        by (simp add: case_fatality_ratio_def gt_zero_def truediv_def times_def)
    next
      case False
      then show ?thesis
        using Num by (simp add: case_fatality_ratio_def gt_zero_def)
    qed
  next
    case PosInf
    then show ?thesis
      using d small [of 0]
      by (simp add: case_fatality_ratio_def gt_zero_def truediv_def times_def)
  qed (use le in \<open>simp_all add: float_le_def\<close>)
  have b: "case_fatality_ratio df r = Inr (Num 0)" if "cell_of df ''Confirmed'' r = Num 0"
    using that by (simp add: case_fatality_ratio_def gt_zero_def)
  have c: "length (rows df') = length (rows df)
        \<and> (\<forall>k<length (rows df).
              case_fatality_ratio df (rows df ! k)
                = Inr (cell_of df' ''Case_Fatality_Ratio'' (rows df' ! k)))"
    if wf: "wf_table df" and ne: "\<not> df_empty df"
      and cols: "''Deaths'' \<in> set (columns df)" "''Confirmed'' \<in> set (columns df)"
      and an: "analyze_data env df w = (w', df', Inr ())"
  proof -
    from an ne cols obtain ratios where
      ap: "apply_rows (case_fatality_ratio df) (rows df) = Inr ratios"
      and df': "df' = setitem df ''Case_Fatality_Ratio'' ratios"
      by (auto simp: analyze_data_def Let_def split: sum.splits if_splits)
    have all2: "list_all2 (\<lambda>r v. case_fatality_ratio df r = Inr v) (rows df) ratios"
      using apply_rows_all2 [OF ap] .
    then have len: "length ratios = length (rows df)"
      by (simp add: list_all2_lengthD)
    have "case_fatality_ratio df (rows df ! k)
        = Inr (cell_of df' ''Case_Fatality_Ratio'' (rows df' ! k))"
      if k: "k < length (rows df)" for k
      using list_all2_nthD [OF all2 k] setitem_cell [OF wf len k] by (simp add: df')
    then show ?thesis using setitem_length [OF len] by (simp add: df')
  qed
  show ?thesis using a b c by blast
qed


theorem case_fatality_ratio_range_witness:
  "cell_of cleaned_raw_table ''Deaths''
       (0, [Str ''Alabama'', Str ''US'', Time 1609564953000000000, Num 100, Num 5]) = Num 5
   \<and> (0::rat) \<le> 5
   \<and> float_le (Num 5) (cell_of cleaned_raw_table ''Confirmed''
         (0, [Str ''Alabama'', Str ''US'', Time 1609564953000000000, Num 100, Num 5]))
   \<and> case_fatality_ratio cleaned_raw_table
         (0, [Str ''Alabama'', Str ''US'', Time 1609564953000000000, Num 100, Num 5])
       = Inr (Num 5)
   \<and> cell_of inf_table ''Deaths'' (2, [Str ''US'', Time 0, PosInf, Num 7]) = Num 7
   \<and> float_le (Num 7) (cell_of inf_table ''Confirmed'' (2, [Str ''US'', Time 0, PosInf, Num 7]))
   \<and> case_fatality_ratio inf_table (2, [Str ''US'', Time 0, PosInf, Num 7]) = Inr (Num 0)
   \<and> cell_of inf_table ''Confirmed'' (3, [Str ''US'', Time 0, Num 0, Str ''n/a'']) = Num 0
   \<and> case_fatality_ratio inf_table (3, [Str ''US'', Time 0, Num 0, Str ''n/a'']) = Inr (Num 0)
   \<and> wf_table cleaned_raw_table \<and> \<not> df_empty cleaned_raw_table
   \<and> snd (analyze_data (demo_env raw_table) cleaned_raw_table initial_world)
       = (analyzed_raw_table, Inr ())
   \<and> case_fatality_ratio cleaned_raw_table (rows cleaned_raw_table ! 0)
       = Inr (cell_of analyzed_raw_table ''Case_Fatality_Ratio'' (rows analyzed_raw_table ! 0))
   \<and> cell_of analyzed_raw_table ''Case_Fatality_Ratio'' (rows analyzed_raw_table ! 0) = Num 5"
proof -
  let ?r1 = "(0::nat, [Str ''Alabama'', Str ''US'', Time 1609564953000000000, Num 100, Num 5])"
  let ?r2 = "(2::nat, [Str ''US'', Time 0, PosInf, Num 7])"
  let ?r3 = "(3::nat, [Str ''US'', Time 0, Num 0, Str ''n/a''])"
  have d1: "cell_of cleaned_raw_table ''Deaths'' ?r1 = Num 5"
    and c1: "float_le (Num 5) (cell_of cleaned_raw_table ''Confirmed'' ?r1)"
    by (simp_all add: cell_of_def cleaned_raw_table_def float_le_def)
  have d2: "cell_of inf_table ''Deaths'' ?r2 = Num 7"
    and c2: "float_le (Num 7) (cell_of inf_table ''Confirmed'' ?r2)"
    and c3: "cell_of inf_table ''Confirmed'' ?r3 = Num 0"
    by (simp_all add: cell_of_def inf_table_def float_le_def)
  have v1: "case_fatality_ratio cleaned_raw_table ?r1 = Inr (Num 5)"
    by (simp add: case_fatality_ratio_def gt_zero_def truediv_def times_def to_float_def
        cell_of_def cleaned_raw_table_def)
  have v2: "case_fatality_ratio inf_table ?r2 = Inr (Num 0)"
    by (simp add: case_fatality_ratio_def gt_zero_def truediv_def times_def to_float_def
        cell_of_def inf_table_def)
  have wf: "wf_table cleaned_raw_table" and ne: "\<not> df_empty cleaned_raw_table"
    and cols: "''Deaths'' \<in> set (columns cleaned_raw_table)"
      "''Confirmed'' \<in> set (columns cleaned_raw_table)"
    by (simp_all add: wf_table_def df_empty_def cleaned_raw_table_def)
  have an: "snd (analyze_data (demo_env raw_table) cleaned_raw_table initial_world)
       = (analyzed_raw_table, Inr ())"
    by (simp add: analyze_data_def df_empty_def cleaned_raw_table_def analyzed_raw_table_def
        case_fatality_ratio_def gt_zero_def truediv_def times_def to_float_def cell_of_def
        setitem_def Let_def)
  then obtain w' where an': "analyze_data (demo_env raw_table) cleaned_raw_table initial_world
       = (w', analyzed_raw_table, Inr ())"
    by (cases "analyze_data (demo_env raw_table) cleaned_raw_table initial_world") auto
  have k: "0 < length (rows cleaned_raw_table)"
    by (simp add: cleaned_raw_table_def)
  have cf: "cell_of analyzed_raw_table ''Case_Fatality_Ratio'' (rows analyzed_raw_table ! 0)
      = Num 5"
    by (simp add: analyzed_raw_table_def cell_of_def)
  note t1 = case_fatality_ratio_range [of cleaned_raw_table ?r1 5 "demo_env raw_table"
      initial_world w' analyzed_raw_table]
  note t2 = case_fatality_ratio_range [of inf_table ?r2 7]
  note t3 = case_fatality_ratio_range [of inf_table ?r3]
  have z: "case_fatality_ratio inf_table ?r3 = Inr (Num 0)" using t3 c3 by blast
  have row: "case_fatality_ratio cleaned_raw_table (rows cleaned_raw_table ! 0)
       = Inr (cell_of analyzed_raw_table ''Case_Fatality_Ratio'' (rows analyzed_raw_table ! 0))"
    using t1 wf ne cols an' k by blast
  have r1: "\<exists>x. case_fatality_ratio cleaned_raw_table ?r1 = Inr (Num x) \<and> 0 \<le> x \<and> x \<le> 100"
    using t1 d1 c1 by simp
  have r2: "\<exists>x. case_fatality_ratio inf_table ?r2 = Inr (Num x) \<and> 0 \<le> x \<and> x \<le> 100"
    using t2 d2 c2 by simp
  show ?thesis
    using d1 c1 v1 d2 c2 v2 c3 z wf ne an row cf by simp
qed

lemma analyze_data_written:
  "written (fst (analyze_data env df w)) = written w"
  by (simp add: analyze_data_def Let_def logger_defs logger_simps show_event_def
      split: sum.splits)

text \<open>
  C6. The persister never raises. A successful write is recorded and logged as information;
  an exception of the write is caught and logged as an error, and the function returns
  normally either way. A run whose cleaned table is not empty therefore always goes on to
  the analyze stage after the persist stage, whatever the write did: the outcome of the run
  is the outcome of \<^verbatim>\<open>analyze_data\<close> on the cleaned table, started in the world that
  \<^verbatim>\<open>save_cleaned_data\<close> left; the stages entered are Load, Clean, Persist, Analyze; and the
  output file is there exactly when the write did not fail.
\<close>

theorem save_cleaned_data_never_raises:
  "snd (save_cleaned_data env df p w) = Inr ()
   \<and> (to_csv_error env p = None \<longrightarrow>
        fst (save_cleaned_data env df p w)
          = logger_info (''Cleaned data saved to '' @ p)
              (w\<lparr>written := written w @ [(p, columns df, map snd (rows df))]\<rparr>))
   \<and> (to_csv_error env p = Some (Exc cls m) \<longrightarrow>
        fst (save_cleaned_data env df p w)
          = logger_error (''Failed to save cleaned data: '' @ m) w)
   \<and> (read_csv env (csv_file_path env) = Inr raw
        \<and> snd (snd (clean_data env raw w0)) = Inr cleaned \<and> \<not> df_empty cleaned \<longrightarrow>
        main env =
          (fst (analyze_data env cleaned (enter Analyze
             (fst (save_cleaned_data env cleaned (processed_file_path env) (enter Persist
                (fst (clean_data env raw (enter Clean
                   (logger_info ''Data successfully loaded'' (enter Load
                      (logger_info (''Attempting to load data from: '' @ csv_file_path env)
                         (logger_warning ''Running analysis on single file only''
                            initial_world)))))))))))),
           snd (snd (analyze_data env cleaned (enter Analyze
             (fst (save_cleaned_data env cleaned (processed_file_path env) (enter Persist
                (fst (clean_data env raw (enter Clean
                   (logger_info ''Data successfully loaded'' (enter Load
                      (logger_info (''Attempting to load data from: '' @ csv_file_path env)
                         (logger_warning ''Running analysis on single file only''
                            initial_world))))))))))))))
        \<and> calls (fst (main env)) = [Load, Clean, Persist, Analyze]
        \<and> written (fst (main env))
            = (case to_csv_error env (processed_file_path env) of
                 None \<Rightarrow> [(processed_file_path env, columns cleaned, map snd (rows cleaned))]
               | Some e \<Rightarrow> []))"
proof -
  define w2 where "w2 = enter Clean (logger_info ''Data successfully loaded''
      (enter Load (logger_info (''Attempting to load data from: '' @ csv_file_path env)
        (logger_warning ''Running analysis on single file only'' initial_world))))"
  define w3 where "w3 = fst (clean_data env raw w2)"
  define w4 where "w4 = fst (save_cleaned_data env cleaned (processed_file_path env)
      (enter Persist w3))"
  have s: "snd (save_cleaned_data env df p w) = Inr ()" for df p w
    by (rule save_cleaned_data_world(3))
  have ok: "to_csv_error env p = None \<Longrightarrow>
        fst (save_cleaned_data env df p w)
          = logger_info (''Cleaned data saved to '' @ p)
              (w\<lparr>written := written w @ [(p, columns df, map snd (rows df))]\<rparr>)" for df p w
    by (simp add: save_cleaned_data_def to_csv_def)
  have ko: "to_csv_error env p = Some (Exc cls m) \<Longrightarrow>
        fst (save_cleaned_data env df p w)
          = logger_error (''Failed to save cleaned data: '' @ m) w" for df p w cls m
    by (simp add: save_cleaned_data_def to_csv_def)
  have run: "main env = (fst (analyze_data env cleaned (enter Analyze w4)),
                         snd (snd (analyze_data env cleaned (enter Analyze w4))))
        \<and> calls (fst (main env)) = [Load, Clean, Persist, Analyze]
        \<and> written (fst (main env))
            = (case to_csv_error env (processed_file_path env) of
                 None \<Rightarrow> [(processed_file_path env, columns cleaned, map snd (rows cleaned))]
               | Some e \<Rightarrow> [])"
    if r: "read_csv env (csv_file_path env) = Inr raw"
      and c: "snd (snd (clean_data env raw w0)) = Inr cleaned" and ne: "\<not> df_empty cleaned"
  proof -
    have "snd (snd (clean_data env raw w2)) = Inr cleaned"
      using c clean_data_result_indep [of env raw w2 w0] by simp
    then obtain df' where cd: "clean_data env raw w2 = (w3, df', Inr cleaned)"
      unfolding w3_def by (cases "clean_data env raw w2") auto
    have sv: "save_cleaned_data env cleaned (processed_file_path env) (enter Persist w3)
        = (w4, Inr ())"
      unfolding w4_def using s [of cleaned "processed_file_path env" "enter Persist w3"]
      by (cases "save_cleaned_data env cleaned (processed_file_path env) (enter Persist w3)")
        auto
    have m: "main env = (fst (analyze_data env cleaned (enter Analyze w4)),
                         snd (snd (analyze_data env cleaned (enter Analyze w4))))"
    proof -
      have rp: "main env =
         (case clean_data env raw w2 of
            (w3, df', Inl e) \<Rightarrow> (w3, Inl e)
          | (w3, df', Inr cleaned_data) \<Rightarrow>
              if \<not> df_empty cleaned_data
              then (case save_cleaned_data env cleaned_data (processed_file_path env)
                           (enter Persist w3) of
                      (w4, Inl e) \<Rightarrow> (w4, Inl e)
                    | (w4, Inr u) \<Rightarrow>
                        (case analyze_data env cleaned_data (enter Analyze w4) of
                           (w5, df'', res) \<Rightarrow> (w5, res)))
              else (logger_error ''Cleaned data is empty. Exiting the script.'' w3, Inr ()))"
        unfolding w2_def by (rule run_prefix [OF r])
      show ?thesis
        by (simp add: rp cd sv ne case_prod_unfold)
    qed
    have c3: "calls w3 = [Load, Clean]" and wr3: "written w3 = []"
      using clean_data_world(1,3) [of env raw w2]
      by (simp_all add: w3_def w2_def enter_simps world_simps)
    have c4: "calls w4 = [Load, Clean, Persist]"
      using save_cleaned_data_world(1) [of env cleaned "processed_file_path env"
          "enter Persist w3"] c3
      by (simp add: w4_def enter_simps)
    have wr4: "written w4
        = (case to_csv_error env (processed_file_path env) of
             None \<Rightarrow> [(processed_file_path env, columns cleaned, map snd (rows cleaned))]
           | Some e \<Rightarrow> [])"
    proof (cases "to_csv_error env (processed_file_path env)")
      case None
      then show ?thesis
        using ok [OF None, of cleaned "enter Persist w3"] wr3
        by (simp add: w4_def world_simps enter_simps)
    next
      case (Some e)
      obtain cls m where e: "e = Exc cls m" by (cases e)
      show ?thesis
        using ko [of "processed_file_path env" cls m cleaned "enter Persist w3"] Some e wr3
        by (simp add: w4_def world_simps enter_simps)
    qed
    have c5: "calls (fst (main env)) = [Load, Clean, Persist, Analyze]"
      by (simp add: m analyze_data_calls enter_simps c4)
    have wr5: "written (fst (main env)) = written w4"
      by (simp add: m analyze_data_written enter_simps)
    show ?thesis using m c5 wr5 wr4 by simp
  qed
  show ?thesis
    using s [of df p w] ok [of p df w] ko [of p cls m df w]
      run [unfolded w4_def w3_def w2_def]
    by blast
qed


lemma analyze_cleaned_raw_table:
  "display (fst (analyze_data env cleaned_raw_table w))
     = display w @ [Printed_summary cleaned_raw_table, Histogram [Num 5],
                    Heatmap analyzed_raw_table]"
  "snd (snd (analyze_data env cleaned_raw_table w)) = Inr ()"
  by (simp_all add: analyze_data_def df_empty_def cleaned_raw_table_def analyzed_raw_table_def
      case_fatality_ratio_def gt_zero_def truediv_def times_def to_float_def cell_of_def
      setitem_def Let_def show_event_def)

theorem save_cleaned_data_never_raises_witness:
  "to_csv_error (demo_env raw_table) (processed_file_path (demo_env raw_table)) = None
   \<and> to_csv_error (readonly_env raw_table) (processed_file_path (readonly_env raw_table))
       = Some (Exc (OtherException ''PermissionError'') ''Permission denied'')
   \<and> read_csv (readonly_env raw_table) (csv_file_path (readonly_env raw_table)) = Inr raw_table
   \<and> snd (snd (clean_data (readonly_env raw_table) raw_table initial_world))
       = Inr cleaned_raw_table
   \<and> \<not> df_empty cleaned_raw_table
   \<and> save_cleaned_data (demo_env raw_table) cleaned_raw_table ''src/../processed_data.csv''
         initial_world
       = (logger_info ''Cleaned data saved to src/../processed_data.csv''
            (initial_world\<lparr>written :=
               [(''src/../processed_data.csv'', columns cleaned_raw_table,
                 map snd (rows cleaned_raw_table))]\<rparr>),
          Inr ())
   \<and> save_cleaned_data (readonly_env raw_table) cleaned_raw_table ''src/../processed_data.csv''
         initial_world
       = (logger_error ''Failed to save cleaned data: Permission denied'' initial_world, Inr ())
   \<and> calls (fst (main (demo_env raw_table))) = [Load, Clean, Persist, Analyze]
   \<and> calls (fst (main (readonly_env raw_table))) = [Load, Clean, Persist, Analyze]
   \<and> written (fst (main (demo_env raw_table)))
       = [(''src/../processed_data.csv'', columns cleaned_raw_table,
           map snd (rows cleaned_raw_table))]
   \<and> written (fst (main (readonly_env raw_table))) = []
   \<and> display (fst (main (demo_env raw_table)))
       = [Printed_summary cleaned_raw_table, Histogram [Num 5], Heatmap analyzed_raw_table]
   \<and> display (fst (main (readonly_env raw_table)))
       = [Printed_summary cleaned_raw_table, Histogram [Num 5], Heatmap analyzed_raw_table]
   \<and> snd (main (demo_env raw_table)) = Inr ()
   \<and> snd (main (readonly_env raw_table)) = Inr ()"
proof -
  let ?p = "''src/../processed_data.csv''"
  have pp: "processed_file_path (demo_env raw_table) = ?p"
    "processed_file_path (readonly_env raw_table) = ?p"
    by (simp_all add: processed_file_path_def os_path_join_def demo_env_def readonly_env_def)
  have p1: "parse_datetime (demo_env raw_table) = demo_parse"
    and p2: "parse_datetime (readonly_env raw_table) = demo_parse"
    by (simp_all add: demo_env_def readonly_env_def)
  have r1: "read_csv (demo_env raw_table) (csv_file_path (demo_env raw_table)) = Inr raw_table"
    and r2: "read_csv (readonly_env raw_table) (csv_file_path (readonly_env raw_table))
       = Inr raw_table"
    by (simp_all add: demo_env_def readonly_env_def)
  have t1: "to_csv_error (demo_env raw_table) ?p = None"
    and t2: "to_csv_error (readonly_env raw_table) ?p
       = Some (Exc (OtherException ''PermissionError'') ''Permission denied'')"
    by (simp_all add: demo_env_def readonly_env_def)
  have c1: "snd (snd (clean_data (demo_env raw_table) raw_table initial_world))
       = Inr cleaned_raw_table"
    and c2: "snd (snd (clean_data (readonly_env raw_table) raw_table initial_world))
       = Inr cleaned_raw_table"
    by (simp_all add: clean_raw_table [OF p1] clean_raw_table [OF p2])
  have ne: "\<not> df_empty cleaned_raw_table"
    by (simp add: df_empty_def cleaned_raw_table_def)
  note a = save_cleaned_data_never_raises [of "demo_env raw_table" cleaned_raw_table
      ?p initial_world _ _ raw_table initial_world cleaned_raw_table]
  note b = save_cleaned_data_never_raises [of "readonly_env raw_table" cleaned_raw_table
      ?p initial_world "OtherException ''PermissionError''" "''Permission denied''"
      raw_table initial_world cleaned_raw_table]
  have sa: "save_cleaned_data (demo_env raw_table) cleaned_raw_table ?p initial_world
       = (logger_info ''Cleaned data saved to src/../processed_data.csv''
            (initial_world\<lparr>written :=
               [(?p, columns cleaned_raw_table, map snd (rows cleaned_raw_table))]\<rparr>),
          Inr ())"
    using a t1 by (simp add: prod_eq_iff initial_world_def)
  have sb: "save_cleaned_data (readonly_env raw_table) cleaned_raw_table ?p initial_world
       = (logger_error ''Failed to save cleaned data: Permission denied'' initial_world, Inr ())"
    using b t2 by (simp add: prod_eq_iff)
  from a r1 c1 ne have ma: "main (demo_env raw_table) =
          (fst (analyze_data (demo_env raw_table) cleaned_raw_table (enter Analyze
             (fst (save_cleaned_data (demo_env raw_table) cleaned_raw_table
                (processed_file_path (demo_env raw_table)) (enter Persist
                (fst (clean_data (demo_env raw_table) raw_table (enter Clean
                   (logger_info ''Data successfully loaded'' (enter Load
                      (logger_info (''Attempting to load data from: ''
                                    @ csv_file_path (demo_env raw_table))
                         (logger_warning ''Running analysis on single file only''
                            initial_world)))))))))))),
           snd (snd (analyze_data (demo_env raw_table) cleaned_raw_table (enter Analyze
             (fst (save_cleaned_data (demo_env raw_table) cleaned_raw_table
                (processed_file_path (demo_env raw_table)) (enter Persist
                (fst (clean_data (demo_env raw_table) raw_table (enter Clean
                   (logger_info ''Data successfully loaded'' (enter Load
                      (logger_info (''Attempting to load data from: ''
                                    @ csv_file_path (demo_env raw_table))
                         (logger_warning ''Running analysis on single file only''
                            initial_world))))))))))))))"
    and ca: "calls (fst (main (demo_env raw_table))) = [Load, Clean, Persist, Analyze]"
    and wa: "written (fst (main (demo_env raw_table)))
            = (case to_csv_error (demo_env raw_table) (processed_file_path (demo_env raw_table)) of
                 None \<Rightarrow> [(processed_file_path (demo_env raw_table), columns cleaned_raw_table,
                           map snd (rows cleaned_raw_table))]
               | Some e \<Rightarrow> [])"
    by blast+
  from b r2 c2 ne have mb: "main (readonly_env raw_table) =
          (fst (analyze_data (readonly_env raw_table) cleaned_raw_table (enter Analyze
             (fst (save_cleaned_data (readonly_env raw_table) cleaned_raw_table
                (processed_file_path (readonly_env raw_table)) (enter Persist
                (fst (clean_data (readonly_env raw_table) raw_table (enter Clean
                   (logger_info ''Data successfully loaded'' (enter Load
                      (logger_info (''Attempting to load data from: ''
                                    @ csv_file_path (readonly_env raw_table))
                         (logger_warning ''Running analysis on single file only''
                            initial_world)))))))))))),
           snd (snd (analyze_data (readonly_env raw_table) cleaned_raw_table (enter Analyze
             (fst (save_cleaned_data (readonly_env raw_table) cleaned_raw_table
                (processed_file_path (readonly_env raw_table)) (enter Persist
                (fst (clean_data (readonly_env raw_table) raw_table (enter Clean
                   (logger_info ''Data successfully loaded'' (enter Load
                      (logger_info (''Attempting to load data from: ''
                                    @ csv_file_path (readonly_env raw_table))
                         (logger_warning ''Running analysis on single file only''
                            initial_world))))))))))))))"
    and cb: "calls (fst (main (readonly_env raw_table))) = [Load, Clean, Persist, Analyze]"
    and wb: "written (fst (main (readonly_env raw_table)))
            = (case to_csv_error (readonly_env raw_table)
                      (processed_file_path (readonly_env raw_table)) of
                 None \<Rightarrow> [(processed_file_path (readonly_env raw_table),
                           columns cleaned_raw_table, map snd (rows cleaned_raw_table))]
               | Some e \<Rightarrow> [])"
    by blast+
  have da: "display (fst (main (demo_env raw_table)))
       = [Printed_summary cleaned_raw_table, Histogram [Num 5], Heatmap analyzed_raw_table]"
    and ra: "snd (main (demo_env raw_table)) = Inr ()"
    by (simp_all add: ma analyze_cleaned_raw_table enter_simps save_cleaned_data_world
        clean_data_world world_simps)
  have db: "display (fst (main (readonly_env raw_table)))
       = [Printed_summary cleaned_raw_table, Histogram [Num 5], Heatmap analyzed_raw_table]"
    and rb: "snd (main (readonly_env raw_table)) = Inr ()"
    by (simp_all add: mb analyze_cleaned_raw_table enter_simps save_cleaned_data_world
        clean_data_world world_simps)
  have wa': "written (fst (main (demo_env raw_table)))
       = [(?p, columns cleaned_raw_table, map snd (rows cleaned_raw_table))]"
    using wa t1 by (simp add: pp)
  have wb': "written (fst (main (readonly_env raw_table))) = []"
    using wb t2 by (simp add: pp)
  show ?thesis
    using t1 t2 r2 c2 ne sa sb ca cb wa' wb' da db ra rb by (simp add: pp)
qed

end
